theory Spec2Isabelle
  imports Complex_Main "HOL-Library.AList" "HOL-Library.Multiset"
begin

section \<open>Top languages fetcher: data model\<close>

text \<open>
  The development embeds \<^verbatim>\<open>src/fetchers/top-languages.js\<close>.

  Conventions of the embedding.
  \<^item> A JavaScript number is a value of the type \<open>number\<close>: \<^verbatim>\<open>NaN\<close>, one of the two
    infinities, or a finite value. Arithmetic on finite values is exact: byte sizes are
    GraphQL integers, whose sums the doubles of the runtime represent exactly up to
    \<open>2^53\<close>, and the two zeros are not told apart. \<^verbatim>\<open>Math.pow\<close> belongs to the
    runtime and is a parameter \<open>pow\<close> of the model.
  \<^item> A plain JavaScript object is its own properties, an association list in the order
    of their creation, and its prototype. Reading a key that is not an own property
    finds what the object inherits; \<^verbatim>\<open>Object.keys\<close> lists the own keys that are
    array indices first, in ascending numeric order, and the others after them in the
    order of their creation.
  \<^item> A value that may be \<^verbatim>\<open>undefined\<close> or \<^verbatim>\<open>null\<close> is an \<open>option\<close>; reading a
    property of such a value raises \<open>TypeError\<close>.
  \<^item> A thrown exception (a rejected promise) is the \<open>Inl\<close> branch of a sum.
  \<^item> Record fields are prefixed by the record they belong to, since several objects of
    the source share the field names \<^verbatim>\<open>name\<close>, \<^verbatim>\<open>color\<close> and \<^verbatim>\<open>size\<close>.
\<close>

subsection \<open>Numbers\<close>

datatype number = NaN | NegInfinity | Num real | PosInfinity

fun js_neg :: "number \<Rightarrow> number" where
  "js_neg NaN = NaN"
| "js_neg NegInfinity = PosInfinity"
| "js_neg (Num a) = Num (- a)"
| "js_neg PosInfinity = NegInfinity"

text \<open>\<^verbatim>\<open>x + y\<close> on numbers.\<close>

fun js_add :: "number \<Rightarrow> number \<Rightarrow> number" where
  "js_add (Num a) (Num b) = Num (a + b)"
| "js_add NaN y = NaN"
| "js_add x NaN = NaN"
| "js_add PosInfinity NegInfinity = NaN"
| "js_add NegInfinity PosInfinity = NaN"
| "js_add PosInfinity y = PosInfinity"
| "js_add x PosInfinity = PosInfinity"
| "js_add NegInfinity y = NegInfinity"
| "js_add x NegInfinity = NegInfinity"

text \<open>\<^verbatim>\<open>x - y\<close>.\<close>

definition js_sub :: "number \<Rightarrow> number \<Rightarrow> number" where
  "js_sub x y = js_add x (js_neg y)"

text \<open>\<^verbatim>\<open>x * y\<close>.\<close>

fun js_mul :: "number \<Rightarrow> number \<Rightarrow> number" where
  "js_mul (Num a) (Num b) = Num (a * b)"
| "js_mul NaN y = NaN"
| "js_mul x NaN = NaN"
| "js_mul (Num a) PosInfinity = (if a = 0 then NaN else if 0 < a then PosInfinity else NegInfinity)"
| "js_mul (Num a) NegInfinity = (if a = 0 then NaN else if 0 < a then NegInfinity else PosInfinity)"
| "js_mul PosInfinity (Num b) = (if b = 0 then NaN else if 0 < b then PosInfinity else NegInfinity)"
| "js_mul NegInfinity (Num b) = (if b = 0 then NaN else if 0 < b then NegInfinity else PosInfinity)"
| "js_mul PosInfinity PosInfinity = PosInfinity"
| "js_mul NegInfinity NegInfinity = PosInfinity"
| "js_mul PosInfinity NegInfinity = NegInfinity"
| "js_mul NegInfinity PosInfinity = NegInfinity"

text \<open>\<^verbatim>\<open>x > 0\<close>, which is false of \<^verbatim>\<open>NaN\<close>.\<close>

fun positive :: "number \<Rightarrow> bool" where
  "positive (Num a) = (0 < a)"
| "positive PosInfinity = True"
| "positive NaN = False"
| "positive NegInfinity = False"


text \<open>Truthiness of a number: \<open>0\<close> and \<^verbatim>\<open>NaN\<close> are falsy.\<close>

fun truthy_number :: "number \<Rightarrow> bool" where
  "truthy_number (Num a) = (a \<noteq> 0)"
| "truthy_number NaN = False"
| "truthy_number NegInfinity = True"
| "truthy_number PosInfinity = True"

subsection \<open>GraphQL response\<close>

text \<open>\<^verbatim>\<open>edge.node\<close>: the language of an edge, \<^verbatim>\<open>{ color, name }\<close>.\<close>

record language =
  node_color :: string
  node_name :: string

text \<open>One element of \<^verbatim>\<open>languages.edges\<close>: \<^verbatim>\<open>{ size, node }\<close>.\<close>

record edge =
  edge_size :: int
  edge_node :: language

text \<open>\<^verbatim>\<open>node.languages\<close>, whose \<^verbatim>\<open>edges\<close> list may be absent.\<close>

record language_connection =
  edges :: "edge list option"

text \<open>
  One element of \<^verbatim>\<open>repositories.nodes\<close>: \<^verbatim>\<open>{ name, languages }\<close>, and the
  \<^verbatim>\<open>size\<close> that line 119 reads. The query of lines 20 to 44 does not ask for a size,
  so the nodes it returns carry none; a node that carries one has \<open>Some\<close> here.
\<close>

record repo_node =
  repo_name :: string
  repo_size :: "real option"
  languages :: "language_connection option"

record page_info =
  hasNextPage :: bool
  endCursor :: "string option"

text \<open>\<^verbatim>\<open>res.data.data.user.repositories\<close>.\<close>

record repositories =
  pageInfo :: page_info
  nodes :: "repo_node list"

text \<open>One element of \<^verbatim>\<open>res.data.errors\<close>.\<close>

record gql_error =
  error_type :: "string option"
  error_message :: "string option"

text \<open>
  The response \<^verbatim>\<open>res\<close> of the retryer: \<^verbatim>\<open>res.data.errors\<close>,
  \<^verbatim>\<open>res.data.data.user.repositories\<close> (absent when the user object is \<^verbatim>\<open>null\<close>) and
  \<^verbatim>\<open>res.statusText\<close>.
\<close>

record response =
  res_errors :: "gql_error list option"
  res_repositories :: "repositories option"
  res_statusText :: string

text \<open>The variables \<^verbatim>\<open>{ login, reposAfter }\<close> passed to the fetcher.\<close>

record variables =
  login :: string
  reposAfter :: "string option"

subsection \<open>Errors\<close>

text \<open>
  The second argument of \<^verbatim>\<open>CustomError\<close>: one of the constants
  \<^verbatim>\<open>CustomError.USER_NOT_FOUND\<close> and \<^verbatim>\<open>CustomError.GRAPHQL_ERROR\<close>, or the
  response's \<^verbatim>\<open>statusText\<close>.
\<close>

datatype custom_error_type = USER_NOT_FOUND | GRAPHQL_ERROR | StatusText string

text \<open>
  What \<^verbatim>\<open>fetchTopLanguages\<close> can throw: \<^verbatim>\<open>MissingParamError\<close> with the list of
  missing parameters, \<^verbatim>\<open>CustomError\<close> with its message (possibly \<^verbatim>\<open>undefined\<close>) and
  type, the runtime's \<^verbatim>\<open>TypeError\<close>, and whatever the retryer itself throws after its
  last attempt.
\<close>

datatype error =
    MissingParamError "string list"
  | CustomError "string option" custom_error_type
  | TypeError
  | RetryerFailure string

subsection \<open>Aggregated statistics\<close>

text \<open>One value of \<^verbatim>\<open>languageStats\<close>: \<^verbatim>\<open>{ name, color, size, count }\<close>.\<close>

record lang_stat =
  stat_name :: string
  stat_color :: string
  stat_size :: number
  stat_count :: number

text \<open>
  The objects \<^verbatim>\<open>languageStats\<close> and \<^verbatim>\<open>topLangs\<close>: the own properties in the
  order of their creation, and the prototype. \<open>None\<close> is \<^verbatim>\<open>Object.prototype\<close>, the
  prototype of \<^verbatim>\<open>{}\<close>; \<open>Some proto\<close> is a statistics object that has become the
  prototype (see \<open>set_prop\<close>), itself an object literal with prototype
  \<^verbatim>\<open>Object.prototype\<close>.
\<close>

record stats_object =
  own_props :: "(string \<times> lang_stat) list"
  prototype :: "lang_stat option"

subsection \<open>Collaborators and their effects\<close>

text \<open>
  The state threaded through a call: the collaborator's own state \<open>world\<close>, the
  variables of every invocation of the retryer so far, and every payload handed to
  \<^verbatim>\<open>logger.error\<close>.
\<close>

record 'w fetch_state =
  world :: 'w
  calls :: "variables list"
  logged :: "gql_error list list"

type_synonym 'w retryer = "variables \<Rightarrow> 'w \<Rightarrow> (error + response) \<times> 'w"

text \<open>\<^verbatim>\<open>wrapTextMultiline(text, width, maxLines)\<close> of \<^verbatim>\<open>common/fmt.js\<close>.\<close>

type_synonym wrapper = "string \<Rightarrow> nat \<Rightarrow> nat \<Rightarrow> string list"

text \<open>\<^verbatim>\<open>await retryer(fetcher, vars)\<close>: one invocation, recorded in \<open>calls\<close>.\<close>

definition call_retryer ::
  "'w retryer \<Rightarrow> variables \<Rightarrow> 'w fetch_state \<Rightarrow> (error + response) \<times> 'w fetch_state" where
  "call_retryer retryer vars st =
     (case retryer vars (world st) of
        (r, w') \<Rightarrow> (r, st\<lparr>world := w', calls := calls st @ [vars]\<rparr>))"

text \<open>\<^verbatim>\<open>logger.error(payload)\<close>.\<close>

definition logger_error :: "gql_error list \<Rightarrow> 'w fetch_state \<Rightarrow> 'w fetch_state" where
  "logger_error payload st = st\<lparr>logged := logged st @ [payload]\<rparr>"

section \<open>The pagination loop\<close>

text \<open>Truthiness of an optional string: \<^verbatim>\<open>undefined\<close> and \<^verbatim>\<open>""\<close> are falsy.\<close>

fun truthy :: "string option \<Rightarrow> bool" where
  "truthy None = False"
| "truthy (Some s) = (s \<noteq> [])"

text \<open>\<^verbatim>\<open>xs[0]\<close>, which is \<^verbatim>\<open>undefined\<close> on the empty array.\<close>

fun first_elem :: "'a list \<Rightarrow> 'a option" where
  "first_elem [] = None"
| "first_elem (x # xs) = Some x"

text \<open>
  Lines 85 to 101: the error thrown once \<^verbatim>\<open>res.data.errors\<close> is truthy. The
  destructuring \<^verbatim>\<open>const [firstError] = res.data.errors\<close> yields \<^verbatim>\<open>undefined\<close> on an
  empty array, and \<^verbatim>\<open>firstError.type\<close> then raises \<open>TypeError\<close>.
\<close>

fun graphql_failure :: "wrapper \<Rightarrow> gql_error list \<Rightarrow> string \<Rightarrow> error" where
  "graphql_failure wrapTextMultiline [] statusText = TypeError"
| "graphql_failure wrapTextMultiline (firstError # others) statusText =
     (if error_type firstError = Some ''NOT_FOUND'' then
        CustomError
          (if truthy (error_message firstError) then error_message firstError
           else Some ''Could not fetch user.'')
          USER_NOT_FOUND
      else if truthy (error_message firstError) then
        CustomError
          (first_elem (wrapTextMultiline (the (error_message firstError)) 90 1))
          (StatusText statusText)
      else
        CustomError
          (Some ''Something went wrong while trying to retrieve the language data using the GraphQL API.'')
          GRAPHQL_ERROR)"

text \<open>
  Lines 80 to 111: \<^verbatim>\<open>while (true)\<close>. The loop need not end (an upstream that always
  reports a next page), so it is a partial function: \<open>None\<close> is a loop that never
  returns, \<open>Some (Inl e, st)\<close> a throw and \<open>Some (Inr allRepoNodes, st)\<close> the
  \<^verbatim>\<open>break\<close>.
\<close>

partial_function (option) collectPages ::
  "'w retryer \<Rightarrow> wrapper \<Rightarrow> string \<Rightarrow> string option \<Rightarrow> repo_node list \<Rightarrow> 'w fetch_state
     \<Rightarrow> ((error + repo_node list) \<times> 'w fetch_state) option" where
  "collectPages retryer wrapTextMultiline username cursor allRepoNodes st =
     (case call_retryer retryer \<lparr>login = username, reposAfter = cursor\<rparr> st of
        (Inl e, st1) \<Rightarrow> Some (Inl e, st1)
      | (Inr res, st1) \<Rightarrow>
          (case res_errors res of
             Some errors \<Rightarrow>
               Some (Inl (graphql_failure wrapTextMultiline errors (res_statusText res)),
                     logger_error errors st1)
           | None \<Rightarrow>
               (case res_repositories res of
                  None \<Rightarrow> Some (Inl TypeError, st1)
                | Some repositories \<Rightarrow>
                    if \<not> hasNextPage (pageInfo repositories) then
                      Some (Inr (allRepoNodes @ nodes repositories), st1)
                    else
                      collectPages retryer wrapTextMultiline username
                        (endCursor (pageInfo repositories))
                        (allRepoNodes @ nodes repositories) st1)))"

section \<open>The aggregation\<close>

text \<open>
  \<^verbatim>\<open>Array.prototype.sort(cmp)\<close>: a stable sort. A positive result of \<open>cmp a b\<close> puts
  \<open>b\<close> before \<open>a\<close>; any other result leaves \<open>a\<close> before \<open>b\<close>, \<^verbatim>\<open>NaN\<close> included,
  which \<^verbatim>\<open>sort\<close> reads as \<open>0\<close>. For a comparator that is not consistent the language
  leaves the resulting order to the implementation, and the insertion sort below is
  one such implementation.
\<close>

fun insert_sorted :: "('a \<Rightarrow> 'a \<Rightarrow> number) \<Rightarrow> 'a \<Rightarrow> 'a list \<Rightarrow> 'a list" where
  "insert_sorted cmp x [] = [x]"
| "insert_sorted cmp x (y # ys) =
     (if positive (cmp x y) then y # insert_sorted cmp x ys else x # y # ys)"

definition js_sort :: "('a \<Rightarrow> 'a \<Rightarrow> number) \<Rightarrow> 'a list \<Rightarrow> 'a list" where
  "js_sort cmp xs = foldr (insert_sorted cmp) xs []"

text \<open>
  The names of the properties that every plain object inherits from
  \<^verbatim>\<open>Object.prototype\<close>. Each of them holds a function, except \<^verbatim>\<open>__proto__\<close>, an
  accessor whose getter returns the prototype of the object and whose setter replaces
  it. None of the inherited values has a property \<^verbatim>\<open>size\<close> or \<^verbatim>\<open>count\<close>.
\<close>

definition objectPrototypeKeys :: "string list" where
  "objectPrototypeKeys =
     [''constructor'', ''__defineGetter__'', ''__defineSetter__'', ''hasOwnProperty'',
      ''__lookupGetter__'', ''__lookupSetter__'', ''isPrototypeOf'', ''propertyIsEnumerable'',
      ''toString'', ''valueOf'', ''__proto__'', ''toLocaleString'']"

text \<open>
  Lines 113 to 116: \<^verbatim>\<open>repoToHide\<close>, the object built from the per-call and the
  process-wide exclusion lists (\<^verbatim>\<open>excludeRepositories\<close> of \<^verbatim>\<open>common/envs.js\<close>, a
  parameter here), every name an own property with the value \<^verbatim>\<open>true\<close>.
\<close>

definition repoToHide :: "string list \<Rightarrow> string list \<Rightarrow> (string \<times> bool) list" where
  "repoToHide exclude_repo excludeRepositories =
     map (\<lambda>name. (name, True)) (exclude_repo @ excludeRepositories)"

text \<open>
  Truthiness of \<^verbatim>\<open>repoToHide[name]\<close>: the own property when there is one, and
  otherwise what the object inherits, which is truthy for each inherited name.
\<close>

definition hidden :: "(string \<times> bool) list \<Rightarrow> string \<Rightarrow> bool" where
  "hidden toHide name =
     (case map_of toHide name of
        Some b \<Rightarrow> b
      | None \<Rightarrow> name \<in> set objectPrototypeKeys)"

text \<open>
  Line 119: the comparator \<^verbatim>\<open>b.size - a.size\<close> on repository nodes. When a node
  carries no size the operand is \<^verbatim>\<open>undefined\<close> and the difference is \<^verbatim>\<open>NaN\<close>.
\<close>

definition repo_compare :: "repo_node \<Rightarrow> repo_node \<Rightarrow> number" where
  "repo_compare a b =
     (case repo_size b of
        None \<Rightarrow> NaN
      | Some size_b \<Rightarrow> (case repo_size a of None \<Rightarrow> NaN | Some size_a \<Rightarrow> Num (size_b - size_a)))"

text \<open>Lines 118 to 120.\<close>

definition visibleRepos :: "string list \<Rightarrow> string list \<Rightarrow> repo_node list \<Rightarrow> repo_node list" where
  "visibleRepos exclude_repo excludeRepositories allRepoNodes =
     filter (\<lambda>repo. \<not> hidden (repoToHide exclude_repo excludeRepositories) (repo_name repo))
       (js_sort repo_compare allRepoNodes)"

text \<open>\<^verbatim>\<open>node.languages.edges\<close>, a \<open>TypeError\<close> when either level is absent.\<close>

definition languages_edges :: "repo_node \<Rightarrow> error + edge list" where
  "languages_edges node =
     (case languages node of
        None \<Rightarrow> Inl TypeError
      | Some conn \<Rightarrow> (case edges conn of None \<Rightarrow> Inl TypeError | Some es \<Rightarrow> Inr es))"

text \<open>Line 125: \<^verbatim>\<open>.filter((node) => node.languages.edges.length > 0)\<close>.\<close>

fun filterNonEmpty :: "repo_node list \<Rightarrow> error + repo_node list" where
  "filterNonEmpty [] = Inr []"
| "filterNonEmpty (node # rest) =
     (case languages_edges node of
        Inl e \<Rightarrow> Inl e
      | Inr es \<Rightarrow>
          (case filterNonEmpty rest of
             Inl e \<Rightarrow> Inl e
           | Inr kept \<Rightarrow> Inr (if length es > 0 then node # kept else kept)))"

text \<open>Line 126: \<^verbatim>\<open>.reduce((acc, curr) => curr.languages.edges.concat(acc), [])\<close>.\<close>

definition flatten_step :: "repo_node \<Rightarrow> error + edge list \<Rightarrow> error + edge list" where
  "flatten_step node acc =
     (case acc of
        Inl e \<Rightarrow> Inl e
      | Inr sofar \<Rightarrow>
          (case languages_edges node of Inl e \<Rightarrow> Inl e | Inr es \<Rightarrow> Inr (es @ sofar)))"

definition flattenEdges :: "repo_node list \<Rightarrow> error + edge list" where
  "flattenEdges kept = fold flatten_step kept (Inr [])"

text \<open>
  What \<^verbatim>\<open>acc[langName]\<close> finds: nothing or a falsy value; a statistics object; or a
  truthy value that is no statistics object (an inherited function, a non-empty string,
  a number other than \<open>0\<close> and \<^verbatim>\<open>NaN\<close>), whose \<^verbatim>\<open>size\<close> and \<^verbatim>\<open>count\<close> are
  \<^verbatim>\<open>undefined\<close>.
\<close>

datatype looked_up = Falsy | Stat lang_stat | Foreign

text \<open>
  \<^verbatim>\<open>acc[key]\<close>. An own property wins. Otherwise the prototype is asked: a statistics
  object that has become the prototype offers its four fields, and
  \<^verbatim>\<open>Object.prototype\<close> offers the inherited names, of which \<^verbatim>\<open>__proto__\<close> returns
  the prototype itself.
\<close>

definition get_prop :: "stats_object \<Rightarrow> string \<Rightarrow> looked_up" where
  "get_prop acc key =
     (case map_of (own_props acc) key of
        Some lang \<Rightarrow> Stat lang
      | None \<Rightarrow>
          (case prototype acc of
             None \<Rightarrow> if key \<in> set objectPrototypeKeys then Foreign else Falsy
           | Some proto \<Rightarrow>
               if key = ''name'' then (if stat_name proto \<noteq> [] then Foreign else Falsy)
               else if key = ''color'' then (if stat_color proto \<noteq> [] then Foreign else Falsy)
               else if key = ''size'' then (if truthy_number (stat_size proto) then Foreign else Falsy)
               else if key = ''count'' then (if truthy_number (stat_count proto) then Foreign else Falsy)
               else if key = ''__proto__'' then Stat proto
               else if key \<in> set objectPrototypeKeys then Foreign
               else Falsy))"

text \<open>
  \<^verbatim>\<open>acc[key] = lang\<close>. The key \<^verbatim>\<open>__proto__\<close> reaches the inherited setter, which makes
  \<open>lang\<close> the prototype and creates no own property; any other key creates the own
  property or replaces its value in place.
\<close>

definition set_prop :: "string \<Rightarrow> lang_stat \<Rightarrow> stats_object \<Rightarrow> stats_object" where
  "set_prop key lang acc =
     (if key = ''__proto__'' then acc\<lparr>prototype := Some lang\<rparr>
      else acc\<lparr>own_props := AList.update key lang (own_props acc)\<rparr>)"

text \<open>
  Lines 127 to 148: one step of the fold into \<^verbatim>\<open>languageStats\<close>. With a truthy
  \<^verbatim>\<open>prev\<close> that is no statistics object, \<^verbatim>\<open>prev.count + 1\<close> and
  \<^verbatim>\<open>prev.size + edge.size\<close> are \<^verbatim>\<open>undefined\<close> plus a number, which is \<^verbatim>\<open>NaN\<close>.
\<close>

definition addEdge :: "edge \<Rightarrow> stats_object \<Rightarrow> stats_object" where
  "addEdge edge acc =
     (case get_prop acc (node_name (edge_node edge)) of
        Stat prev \<Rightarrow>
          set_prop (node_name (edge_node edge))
            \<lparr>stat_name = node_name (edge_node edge),
             stat_color = node_color (edge_node edge),
             stat_size = js_add (stat_size prev) (Num (real_of_int (edge_size edge))),
             stat_count = js_add (stat_count prev) (Num 1)\<rparr> acc
      | Foreign \<Rightarrow>
          set_prop (node_name (edge_node edge))
            \<lparr>stat_name = node_name (edge_node edge),
             stat_color = node_color (edge_node edge),
             stat_size = NaN,
             stat_count = NaN\<rparr> acc
      | Falsy \<Rightarrow>
          set_prop (node_name (edge_node edge))
            \<lparr>stat_name = node_name (edge_node edge),
             stat_color = node_color (edge_node edge),
             stat_size = Num (real_of_int (edge_size edge)),
             stat_count = Num 1\<rparr> acc)"

definition languageStats :: "edge list \<Rightarrow> stats_object" where
  "languageStats es = fold addEdge es \<lparr>own_props = [], prototype = None\<rparr>"

text \<open>
  An array index is the canonical decimal numeral of an integer from \<open>0\<close> to
  \<open>2^32 - 2\<close>.
\<close>

definition decimal :: "string \<Rightarrow> nat" where
  "decimal s = foldl (\<lambda>n c. 10 * n + (of_char c - 48)) 0 s"

definition array_index :: "string \<Rightarrow> nat option" where
  "array_index s =
     (if s \<noteq> [] \<and> (\<forall>c \<in> set s. 48 \<le> (of_char c :: nat) \<and> (of_char c :: nat) \<le> 57)
         \<and> (s = ''0'' \<or> hd s \<noteq> CHR ''0'') \<and> decimal s < 4294967295
      then Some (decimal s) else None)"

text \<open>
  \<^verbatim>\<open>Object.keys\<close> on own properties: the array indices in ascending numeric order,
  then the other keys in the order of their creation.
\<close>

definition objectKeys :: "(string \<times> 'v) list \<Rightarrow> string list" where
  "objectKeys props =
     sort_key (\<lambda>key. the (array_index key))
       (filter (\<lambda>key. array_index key \<noteq> None) (map fst props))
     @ filter (\<lambda>key. array_index key = None) (map fst props)"

text \<open>Lines 151 to 155: the \<^verbatim>\<open>size\<close> of every own entry is replaced by the weighted score.\<close>

definition weigh ::
  "(number \<Rightarrow> number \<Rightarrow> number) \<Rightarrow> number \<Rightarrow> number \<Rightarrow> stats_object \<Rightarrow> stats_object" where
  "weigh pow size_weight count_weight stats =
     stats\<lparr>own_props :=
       map (\<lambda>(name, lang).
              (name, lang\<lparr>stat_size :=
                 js_mul (pow (stat_size lang) size_weight) (pow (stat_count lang) count_weight)\<rparr>))
         (own_props stats)\<rparr>"

text \<open>
  Lines 157 to 162: the own keys sorted by descending size, and the object rebuilt from
  \<^verbatim>\<open>{}\<close> in that order.
\<close>

definition size_compare :: "stats_object \<Rightarrow> string \<Rightarrow> string \<Rightarrow> number" where
  "size_compare stats a b =
     js_sub (stat_size (the (map_of (own_props stats) b)))
            (stat_size (the (map_of (own_props stats) a)))"

definition topLangs :: "stats_object \<Rightarrow> stats_object" where
  "topLangs stats =
     fold (\<lambda>key result. set_prop key (the (map_of (own_props stats) key)) result)
       (js_sort (size_compare stats) (objectKeys (own_props stats)))
       \<lparr>own_props = [], prototype = None\<rparr>"


text \<open>Lines 113 to 164: everything after the loop.\<close>

definition aggregate ::
  "(number \<Rightarrow> number \<Rightarrow> number) \<Rightarrow> string list \<Rightarrow> string list \<Rightarrow> number \<Rightarrow> number
     \<Rightarrow> repo_node list \<Rightarrow> error + stats_object" where
  "aggregate pow exclude_repo excludeRepositories size_weight count_weight allRepoNodes =
     (case filterNonEmpty (visibleRepos exclude_repo excludeRepositories allRepoNodes) of
        Inl e \<Rightarrow> Inl e
      | Inr kept \<Rightarrow>
          (case flattenEdges kept of
             Inl e \<Rightarrow> Inl e
           | Inr es \<Rightarrow> Inr (topLangs (weigh pow size_weight count_weight (languageStats es)))))"

section \<open>The entry point\<close>

text \<open>
  \<^verbatim>\<open>fetchTopLanguages(username, exclude_repo = [], size_weight = 1, count_weight = 0)\<close>.
  An omitted argument is \<open>None\<close> and takes its default.
\<close>

definition fetchTopLanguages ::
  "'w retryer \<Rightarrow> wrapper \<Rightarrow> (number \<Rightarrow> number \<Rightarrow> number) \<Rightarrow> string list
     \<Rightarrow> string option \<Rightarrow> string list option \<Rightarrow> number option \<Rightarrow> number option
     \<Rightarrow> 'w fetch_state \<Rightarrow> ((error + stats_object) \<times> 'w fetch_state) option" where
  "fetchTopLanguages retryer wrapTextMultiline pow excludeRepositories
       username exclude_repo size_weight count_weight st =
     (if \<not> truthy username then Some (Inl (MissingParamError [''username'']), st)
      else
        (case collectPages retryer wrapTextMultiline (the username) None [] st of
           None \<Rightarrow> None
         | Some (Inl e, st') \<Rightarrow> Some (Inl e, st')
         | Some (Inr allRepoNodes, st') \<Rightarrow>
             Some (aggregate pow
                     (case exclude_repo of None \<Rightarrow> [] | Some names \<Rightarrow> names)
                     excludeRepositories
                     (case size_weight of None \<Rightarrow> Num 1 | Some w \<Rightarrow> w)
                     (case count_weight of None \<Rightarrow> Num 0 | Some w \<Rightarrow> w)
                     allRepoNodes,
                   st')))"

section \<open>Notions of the specification\<close>

text \<open>
  The repositories of a node sequence that are in neither exclusion list, in the order
  of the sequence.
\<close>

definition nonExcluded :: "string list \<Rightarrow> string list \<Rightarrow> repo_node list \<Rightarrow> repo_node list" where
  "nonExcluded exclude_repo excludeRepositories allRepoNodes =
     filter (\<lambda>repo. repo_name repo \<notin> set exclude_repo \<and> repo_name repo \<notin> set excludeRepositories)
       allRepoNodes"

text \<open>The language edges a repository node carries; none when the list is absent.\<close>

definition edge_list :: "repo_node \<Rightarrow> edge list" where
  "edge_list node = (case languages_edges node of Inl e \<Rightarrow> [] | Inr es \<Rightarrow> es)"

definition edge_name :: "edge \<Rightarrow> string" where
  "edge_name e = node_name (edge_node e)"

text \<open>The edges of a sequence that name a given language.\<close>

definition edgesNamed :: "string \<Rightarrow> edge list \<Rightarrow> edge list" where
  "edgesNamed l es = filter (\<lambda>e. edge_name e = l) es"

text \<open>All edges of a node sequence, repository by repository.\<close>

definition allEdges :: "repo_node list \<Rightarrow> edge list" where
  "allEdges repos = concat (map edge_list repos)"

text \<open>
  The order in which the fold of lines 127 to 149 meets the edges: the repositories
  from the last to the first, the edges of one repository in their own order.
\<close>

definition foldOrder :: "repo_node list \<Rightarrow> edge list" where
  "foldOrder repos = concat (rev (map edge_list repos))"

text \<open>A repository lists a language when one of its edges names it.\<close>

definition listsLanguage :: "string \<Rightarrow> repo_node \<Rightarrow> bool" where
  "listsLanguage l node = (l \<in> set (map edge_name (edge_list node)))"

text \<open>
  The number of distinct repositories (by name) of a node sequence that list a language
  at least once.
\<close>

definition distinctReposListing :: "string \<Rightarrow> repo_node list \<Rightarrow> nat" where
  "distinctReposListing l repos = length (remdups (map repo_name (filter (listsLanguage l) repos)))"

text \<open>
  A name that every plain object inherits from \<^verbatim>\<open>Object.prototype\<close>, such as
  \<^verbatim>\<open>constructor\<close> or \<^verbatim>\<open>toString\<close>.
\<close>

definition inheritedName :: "string \<Rightarrow> bool" where
  "inheritedName name = (name \<in> set objectPrototypeKeys)"

text \<open>
  Either every node of the sequence carries a size or none does. A query asks for the
  same fields of every node, so the nodes it returns are of this kind. These are the
  sequences on which the comparator of line 119 is consistent, so that the language
  fixes the order in which the sort leaves them.
\<close>

definition uniformSizes :: "repo_node list \<Rightarrow> bool" where
  "uniformSizes allRepoNodes =
     ((\<forall>node \<in> set allRepoNodes. repo_size node = None) \<or>
      (\<forall>node \<in> set allRepoNodes. repo_size node \<noteq> None))"


text \<open>An argument of the entry point, or its default when omitted.\<close>

definition orDefault :: "'a \<Rightarrow> 'a option \<Rightarrow> 'a" where
  "orDefault d arg = (case arg of None \<Rightarrow> d | Some v \<Rightarrow> v)"

text \<open>
  The loop, started with cursor \<open>c\<close> in state \<open>st\<close>, is served the pages \<open>ps\<close> one
  after the other, each without an error envelope and each announcing a next page;
  the result is the cursor and the state the loop has reached after them.
\<close>

fun turnPages ::
  "'w retryer \<Rightarrow> string \<Rightarrow> repositories list \<Rightarrow> string option \<Rightarrow> 'w fetch_state
     \<Rightarrow> (string option \<times> 'w fetch_state) option" where
  "turnPages retryer username [] c st = Some (c, st)"
| "turnPages retryer username (p # ps) c st =
     (case call_retryer retryer \<lparr>login = username, reposAfter = c\<rparr> st of
        (Inl e, st1) \<Rightarrow> None
      | (Inr res, st1) \<Rightarrow>
          if res_errors res = None \<and> res_repositories res = Some p \<and> hasNextPage (pageInfo p)
          then turnPages retryer username ps (endCursor (pageInfo p)) st1
          else None)"

text \<open>
  Modelled from the spec: \<^verbatim>\<open>wrapTextMultiline\<close> lives in \<^verbatim>\<open>common/fmt.js\<close>, which is
  not part of the sources at hand. The specification describes its result as the
  message cut into lines of at most \<open>width\<close> characters, of which at most
  \<open>maxLines\<close> are kept.
\<close>

definition wrapsWithin :: "wrapper \<Rightarrow> bool" where
  "wrapsWithin wrapTextMultiline \<longleftrightarrow>
     (\<forall>text width maxLines.
        length (wrapTextMultiline text width maxLines) \<le> maxLines \<and>
        (\<forall>line \<in> set (wrapTextMultiline text width maxLines). length line \<le> width))"

section \<open>Sample collaborators and inputs\<close>

text \<open>A retryer that hands out the responses of a script, one per invocation.\<close>

definition scripted :: "(response list) retryer" where
  "scripted vars script =
     (case script of
        [] \<Rightarrow> (Inl (RetryerFailure ''script exhausted''), [])
      | res # later \<Rightarrow> (Inr res, later))"

definition initial :: "'w \<Rightarrow> 'w fetch_state" where
  "initial w = \<lparr>world = w, calls = [], logged = []\<rparr>"

definition page :: "bool \<Rightarrow> string option \<Rightarrow> repo_node list \<Rightarrow> repositories" where
  "page next cursor ns = \<lparr>pageInfo = \<lparr>hasNextPage = next, endCursor = cursor\<rparr>, nodes = ns\<rparr>"

definition success :: "repositories \<Rightarrow> response" where
  "success p = \<lparr>res_errors = None, res_repositories = Some p, res_statusText = ''OK''\<rparr>"

definition failure :: "gql_error list \<Rightarrow> response" where
  "failure es = \<lparr>res_errors = Some es, res_repositories = None, res_statusText = ''OK''\<rparr>"

definition lang_edge :: "string \<Rightarrow> string \<Rightarrow> int \<Rightarrow> edge" where
  "lang_edge l c n = \<lparr>edge_size = n, edge_node = \<lparr>node_color = c, node_name = l\<rparr>\<rparr>"

text \<open>A repository node as the query returns it, without a size.\<close>

definition repo :: "string \<Rightarrow> edge list \<Rightarrow> repo_node" where
  "repo n es = \<lparr>repo_name = n, repo_size = None, languages = Some \<lparr>edges = Some es\<rparr>\<rparr>"

text \<open>A repository node that carries a size.\<close>

definition sized_repo :: "string \<Rightarrow> real \<Rightarrow> edge list \<Rightarrow> repo_node" where
  "sized_repo n k es = \<lparr>repo_name = n, repo_size = Some k, languages = Some \<lparr>edges = Some es\<rparr>\<rparr>"

text \<open>A repository node without its \<^verbatim>\<open>languages\<close> field.\<close>

definition bare_repo :: "string \<Rightarrow> repo_node" where
  "bare_repo n = \<lparr>repo_name = n, repo_size = None, languages = None\<rparr>"

text \<open>A wrapper that cuts the text after \<open>width\<close> characters.\<close>

definition cut :: wrapper where
  "cut text width maxLines = take maxLines [take width text]"

text \<open>
  A power function that is right on the exponents \<open>0\<close> and \<open>1\<close>, the only ones the
  samples use.
\<close>

definition power01 :: "number \<Rightarrow> number \<Rightarrow> number" where
  "power01 x y = (if y = Num 0 then Num 1 else if y = Num 1 then x else NaN)"

text \<open>
  The scenario of the specification: two repositories of sizes 100 and 200, on two
  pages.
\<close>

definition sample_a :: repo_node where
  "sample_a = sized_repo ''a'' 100 [lang_edge ''X'' ''#111'' 50]"

definition sample_b :: repo_node where
  "sample_b = sized_repo ''b'' 200 [lang_edge ''X'' ''#111'' 70, lang_edge ''Y'' ''#222'' 30]"

definition two_pages :: "response list" where
  "two_pages = [success (page True (Some ''c1'') [sample_a]), success (page False None [sample_b])]"

text \<open>A repository whose edge list names one language twice.\<close>

definition twice_listed :: repo_node where
  "twice_listed = repo ''r'' [lang_edge ''X'' ''#111'' 10, lang_edge ''X'' ''#222'' 20]"

text \<open>
  Two repositories whose edges give one language two colours, without sizes and with
  sizes that make the sort exchange them.
\<close>

definition recoloured :: "repo_node list" where
  "recoloured = [repo ''a'' [lang_edge ''X'' ''#111'' 50], repo ''b'' [lang_edge ''X'' ''#999'' 70]]"

definition recoloured_sized :: "repo_node list" where
  "recoloured_sized =
     [sized_repo ''a'' 100 [lang_edge ''X'' ''#111'' 50],
      sized_repo ''b'' 200 [lang_edge ''X'' ''#999'' 70]]"

text \<open>
  A sequence that mixes nodes with and without a size; the node without a size has no
  languages.
\<close>

definition mixed_sizes :: "repo_node list" where
  "mixed_sizes =
     [sized_repo ''a'' 1 [lang_edge ''X'' ''#111'' 50],
      repo ''u'' [],
      sized_repo ''b'' 2 [lang_edge ''X'' ''#999'' 70]]"

text \<open>A repository whose languages include one that is named like an array index.\<close>

definition numbered :: repo_node where
  "numbered = repo ''n'' [lang_edge ''A'' ''#aaa'' 100, lang_edge ''1'' ''#bbb'' 5]"

text \<open>
  Two repositories in no exclusion list, one of them named like a property that every
  object inherits.
\<close>

definition with_constructor :: "repo_node list" where
  "with_constructor =
     [repo ''a'' [lang_edge ''X'' ''#111'' 70], repo ''constructor'' [lang_edge ''X'' ''#111'' 50]]"

text \<open>The state of the scripted collaborators after one and after two page fetches.\<close>

definition after_one_call :: "(response list) fetch_state" where
  "after_one_call = \<lparr>world = [], calls = [\<lparr>login = ''octocat'', reposAfter = None\<rparr>], logged = []\<rparr>"

definition after_two_calls :: "(response list) fetch_state" where
  "after_two_calls = \<lparr>world = [], calls = [\<lparr>login = ''octocat'', reposAfter = None\<rparr>,
                                 \<lparr>login = ''octocat'', reposAfter = Some ''c1''\<rparr>], logged = []\<rparr>"

text \<open>Error envelopes.\<close>

definition not_found :: gql_error where
  "not_found = \<lparr>error_type = Some ''NOT_FOUND'',
                 error_message = Some ''Could not resolve to a User with the login of octocat.''\<rparr>"

definition rate_limited :: gql_error where
  "rate_limited = \<lparr>error_type = Some ''RATE_LIMITED'', error_message = Some ''API rate limit exceeded''\<rparr>"

definition nameless :: gql_error where
  "nameless = \<lparr>error_type = None, error_message = None\<rparr>"

definition fails_on_second_page :: "gql_error list \<Rightarrow> response list" where
  "fails_on_second_page es = [success (page True (Some ''c1'') [sample_a]), failure es]"

text \<open>A statistics entry with finite size and count, and an object with given own entries.\<close>

definition stat :: "string \<Rightarrow> string \<Rightarrow> real \<Rightarrow> real \<Rightarrow> lang_stat" where
  "stat l c s n = \<lparr>stat_name = l, stat_color = c, stat_size = Num s, stat_count = Num n\<rparr>"

definition object :: "(string \<times> lang_stat) list \<Rightarrow> stats_object" where
  "object props = \<lparr>own_props = props, prototype = None\<rparr>"

text \<open>What the specification expects of its scenario with the weights \<open>(1, 0)\<close> and \<open>(0, 1)\<close>.\<close>

definition scenario_result :: stats_object where
  "scenario_result = object [(''X'', stat ''X'' ''#111'' 120 2), (''Y'', stat ''Y'' ''#222'' 30 1)]"


section \<open>Properties of the pagination loop\<close>

lemmas sample_defs = scripted_def initial_def page_def success_def failure_def call_retryer_def
  logger_error_def

text \<open>Pages that announce a successor only move the cursor and extend the accumulator.\<close>

lemma collect_turnPages:
  "turnPages retryer username ps c st = Some (c', st') \<Longrightarrow>
   collectPages retryer wrap username c acc st =
   collectPages retryer wrap username c' (acc @ concat (map nodes ps)) st'"
proof (induction ps arbitrary: c st acc)
  case Nil
  then show ?case by simp
next
  case (Cons p ps)
  obtain r st1 where call: "call_retryer retryer \<lparr>login = username, reposAfter = c\<rparr> st = (r, st1)"
    by (cases "call_retryer retryer \<lparr>login = username, reposAfter = c\<rparr> st")
  from Cons.prems call obtain res where r: "r = Inr res"
    by (cases r) auto
  from Cons.prems call r have ok: "res_errors res = None" "res_repositories res = Some p"
    "hasNextPage (pageInfo p)"
    and rest: "turnPages retryer username ps (endCursor (pageInfo p)) st1 = Some (c', st')"
    by (auto split: if_splits)
  have "collectPages retryer wrap username c acc st =
        collectPages retryer wrap username (endCursor (pageInfo p)) (acc @ nodes p) st1"
    by (subst collectPages.simps) (simp add: call r ok)
  also have "\<dots> = collectPages retryer wrap username c' ((acc @ nodes p) @ concat (map nodes ps)) st'"
    by (rule Cons.IH [OF rest])
  finally show ?case by simp
qed

lemma collect_last_page:
  assumes "call_retryer retryer \<lparr>login = username, reposAfter = c\<rparr> st = (Inr res, st1)"
    and "res_errors res = None" and "res_repositories res = Some p"
    and "\<not> hasNextPage (pageInfo p)"
  shows "collectPages retryer wrap username c acc st = Some (Inr (acc @ nodes p), st1)"
  by (subst collectPages.simps) (simp add: assms)

lemma collect_errors:
  assumes "call_retryer retryer \<lparr>login = username, reposAfter = c\<rparr> st = (Inr res, st1)"
    and "res_errors res = Some errors"
  shows "collectPages retryer wrap username c acc st =
         Some (Inl (graphql_failure wrap errors (res_statusText res)), logger_error errors st1)"
  by (subst collectPages.simps) (simp add: assms)

text \<open>Once the loop has returned, the entry point is the aggregation of what it collected.\<close>

lemma fetch_collected:
  assumes "username \<noteq> []"
    and "collectPages retryer wrap username None [] st = Some (Inr allRepoNodes, st1)"
  shows "fetchTopLanguages retryer wrap pow excludeRepositories
           (Some username) exclude_repo size_weight count_weight st =
         Some (aggregate pow (orDefault [] exclude_repo) excludeRepositories
                 (orDefault (Num 1) size_weight) (orDefault (Num 0) count_weight) allRepoNodes, st1)"
  using assms by (simp add: fetchTopLanguages_def orDefault_def)

lemma fetch_thrown:
  assumes "username \<noteq> []"
    and "collectPages retryer wrap username None [] st = Some (Inl e, st1)"
  shows "fetchTopLanguages retryer wrap pow excludeRepositories
           (Some username) exclude_repo size_weight count_weight st = Some (Inl e, st1)"
  using assms by (simp add: fetchTopLanguages_def)

lemma fetch_aggregate:
  assumes "collectPages retryer wrap username None [] st = Some (Inr allRepoNodes, st1)"
    and "fetchTopLanguages retryer wrap pow excludeRepositories
           (Some username) exclude_repo size_weight count_weight st = Some (Inr out, st2)"
  shows "aggregate pow (orDefault [] exclude_repo) excludeRepositories
           (orDefault (Num 1) size_weight) (orDefault (Num 0) count_weight) allRepoNodes = Inr out"
proof -
  have "username \<noteq> []"
    using assms(2) by (auto simp: fetchTopLanguages_def split: if_splits)
  from fetch_collected [OF this assms(1), of pow excludeRepositories exclude_repo size_weight count_weight]
    assms(2) show ?thesis by simp
qed

lemma fetch_errors:
  assumes "username \<noteq> []"
    and "turnPages retryer username ps None st = Some (c, st1)"
    and "call_retryer retryer \<lparr>login = username, reposAfter = c\<rparr> st1 = (Inr res, st2)"
    and "res_errors res = Some errors"
  shows "fetchTopLanguages retryer wrap pow excludeRepositories
           (Some username) exclude_repo size_weight count_weight st =
         Some (Inl (graphql_failure wrap errors (res_statusText res)), logger_error errors st2)"
proof -
  have "collectPages retryer wrap username None [] st =
        collectPages retryer wrap username c ([] @ concat (map nodes ps)) st1"
    by (rule collect_turnPages [OF assms(2)])
  also have "\<dots> = Some (Inl (graphql_failure wrap errors (res_statusText res)), logger_error errors st2)"
    by (rule collect_errors [OF assms(3,4)])
  finally show ?thesis
    using assms(1) by (intro fetch_thrown) simp_all
qed

text \<open>The first line of a wrapper that keeps to its width is no longer than the width.\<close>

lemma first_line_within:
  assumes "wrapsWithin wrap" and "first_elem (wrap text width maxLines) = Some line"
  shows "length line \<le> width"
proof -
  from assms(2) have "line \<in> set (wrap text width maxLines)"
    by (cases "wrap text width maxLines") auto
  with assms(1) show ?thesis by (auto simp: wrapsWithin_def)
qed

lemma cut_wrapsWithin: "wrapsWithin cut"
  by (auto simp: wrapsWithin_def cut_def dest: in_set_takeD)

subsection \<open>Runs of the sample collaborators\<close>

lemma collect_single_page:
  "collectPages scripted wrap ''octocat'' None [] (initial [success (page False None ns)]) =
   Some (Inr ns, after_one_call)"
  by (subst collectPages.simps) (simp add: sample_defs after_one_call_def)

lemma collect_two_pages:
  "collectPages scripted wrap ''octocat'' None [] (initial two_pages) =
   Some (Inr [sample_a, sample_b], after_two_calls)"
proof -
  have "turnPages scripted ''octocat'' [page True (Some ''c1'') [sample_a]] None (initial two_pages) =
        Some (Some ''c1'', \<lparr>world = [success (page False None [sample_b])],
                calls = [\<lparr>login = ''octocat'', reposAfter = None\<rparr>], logged = []\<rparr>)"
    by (simp add: sample_defs two_pages_def)
  from collect_turnPages [OF this, of wrap "[]"]
  have "collectPages scripted wrap ''octocat'' None [] (initial two_pages) =
        collectPages scripted wrap ''octocat'' (Some ''c1'') [sample_a]
          \<lparr>world = [success (page False None [sample_b])],
                calls = [\<lparr>login = ''octocat'', reposAfter = None\<rparr>], logged = []\<rparr>"
    by (simp add: page_def)
  also have "\<dots> = Some (Inr ([sample_a] @ nodes (page False None [sample_b])), after_two_calls)"
    by (rule collect_last_page [where res = "success (page False None [sample_b])"
          and p = "page False None [sample_b]"])
      (simp_all add: sample_defs after_two_calls_def)
  finally show ?thesis by (simp add: page_def)
qed

lemma fetch_single_page:
  "fetchTopLanguages scripted wrap pow excludeRepositories (Some ''octocat'')
     exclude_repo size_weight count_weight (initial [success (page False None ns)]) =
   Some (aggregate pow (orDefault [] exclude_repo) excludeRepositories
           (orDefault (Num 1) size_weight) (orDefault (Num 0) count_weight) ns, after_one_call)"
  by (rule fetch_collected) (simp_all add: collect_single_page)

lemma fetch_two_pages:
  "fetchTopLanguages scripted wrap pow excludeRepositories (Some ''octocat'')
     exclude_repo size_weight count_weight (initial two_pages) =
   Some (aggregate pow (orDefault [] exclude_repo) excludeRepositories
           (orDefault (Num 1) size_weight) (orDefault (Num 0) count_weight) [sample_a, sample_b], after_two_calls)"
  by (rule fetch_collected) (simp_all add: collect_two_pages)

section \<open>Validation, termination and error envelopes\<close>

text \<open>
  Claim C8. A call whose username is absent or the empty string fails with
  \<open>MissingParamError [''username'']\<close>, whatever the collaborators are, and it leaves the
  state as it found it: the list \<open>calls\<close> of invocations of the retryer has not grown,
  so no page fetch was attempted.
\<close>

theorem missing_username:
  assumes "username = None \<or> username = Some ''''"
  shows "fetchTopLanguages retryer wrap pow excludeRepositories
           username exclude_repo size_weight count_weight st =
         Some (Inl (MissingParamError [''username'']), st)"
  using assms by (auto simp: fetchTopLanguages_def)

theorem missing_username_witness:
  "fetchTopLanguages scripted cut power01 [] (Some '''') None None None (initial two_pages) =
     Some (Inl (MissingParamError [''username'']), initial two_pages)
   \<and> fetchTopLanguages scripted cut power01 [] None None None None (initial two_pages) =
     Some (Inl (MissingParamError [''username'']), initial two_pages)
   \<and> calls (initial two_pages) = []"
  using missing_username [of "Some ''''" scripted cut power01 "[]" None None None "initial two_pages"]
    missing_username [of None scripted cut power01 "[]" None None None "initial two_pages"]
  by (simp add: initial_def)

text \<open>
  Claim C7. Let the loop be served the pages \<open>ps\<close>, each without an error envelope and
  each announcing a next page, and then a last page \<open>p\<close> without an error envelope
  that announces none. Then the loop returns (its value is not \<open>None\<close>), what it
  returns is the nodes of all the pages in page order, whose number is the sum of the
  pages' node counts, and the entry point returns as well.
\<close>

theorem pagination_terminates:
  assumes "username \<noteq> []"
    and "turnPages retryer username ps None st = Some (c, st1)"
    and "call_retryer retryer \<lparr>login = username, reposAfter = c\<rparr> st1 = (Inr res, st2)"
    and "res_errors res = None" and "res_repositories res = Some p"
    and "\<not> hasNextPage (pageInfo p)"
  shows "collectPages retryer wrap username None [] st =
           Some (Inr (concat (map nodes (ps @ [p]))), st2)
       \<and> length (concat (map nodes (ps @ [p]))) = sum_list (map (\<lambda>q. length (nodes q)) (ps @ [p]))
       \<and> (\<exists>result. fetchTopLanguages retryer wrap pow excludeRepositories
             (Some username) exclude_repo size_weight count_weight st = Some (result, st2))"
proof -
  have "collectPages retryer wrap username None [] st =
        collectPages retryer wrap username c ([] @ concat (map nodes ps)) st1"
    by (rule collect_turnPages [OF assms(2)])
  also have "\<dots> = Some (Inr (([] @ concat (map nodes ps)) @ nodes p), st2)"
    by (rule collect_last_page [OF assms(3-6)])
  finally have run: "collectPages retryer wrap username None [] st =
      Some (Inr (concat (map nodes (ps @ [p]))), st2)"
    by simp
  have len: "length (concat (map nodes (ps @ [p]))) = sum_list (map (\<lambda>q. length (nodes q)) (ps @ [p]))"
    by (simp add: length_concat comp_def)
  from fetch_collected [OF assms(1) run]
  have "fetchTopLanguages retryer wrap pow excludeRepositories
             (Some username) exclude_repo size_weight count_weight st =
        Some (aggregate pow (orDefault [] exclude_repo) excludeRepositories
                 (orDefault (Num 1) size_weight) (orDefault (Num 0) count_weight) (concat (map nodes (ps @ [p]))), st2)" .
  with run len show ?thesis by blast
qed

theorem pagination_terminates_witness:
  "collectPages scripted cut ''octocat'' None [] (initial two_pages) =
     Some (Inr [sample_a, sample_b], after_two_calls)
   \<and> length [sample_a, sample_b] = 1 + 1"
  using pagination_terminates [of "''octocat''" scripted "[page True (Some ''c1'') [sample_a]]"
      "initial two_pages" "Some ''c1''"
      "\<lparr>world = [success (page False None [sample_b])],
        calls = [\<lparr>login = ''octocat'', reposAfter = None\<rparr>], logged = []\<rparr>"
      "success (page False None [sample_b])" after_two_calls
      "page False None [sample_b]" cut power01 "[]" None None None]
  by (simp add: sample_defs two_pages_def after_two_calls_def)

text \<open>
  Claim C9. Let a page response, the first or any later one, carry an error list whose
  first entry is \<open>firstError\<close>. If the type of \<open>firstError\<close> is \<open>NOT_FOUND\<close>, the call
  fails with a \<open>CustomError\<close> of type \<open>USER_NOT_FOUND\<close> that carries the provider
  message, or \<open>Could not fetch user.\<close> when there is none. Otherwise, if there is a
  provider message, the call fails with a \<open>CustomError\<close> whose type is the status text
  and whose message is the first line of the message wrapped at 90 characters with one
  line kept, which is at most 90 characters long for a wrapper that keeps to its width;
  and if there is no message it fails with the generic message and type
  \<open>GRAPHQL_ERROR\<close>. In each case the error list has been logged.
\<close>

theorem error_envelope:
  assumes "username \<noteq> []"
    and "turnPages retryer username ps None st = Some (c, st1)"
    and "call_retryer retryer \<lparr>login = username, reposAfter = c\<rparr> st1 = (Inr res, st2)"
    and "res_errors res = Some (firstError # others)"
  shows "(error_type firstError = Some ''NOT_FOUND'' \<longrightarrow>
            fetchTopLanguages retryer wrap pow excludeRepositories
              (Some username) exclude_repo size_weight count_weight st =
            Some (Inl (CustomError
                         (if truthy (error_message firstError) then error_message firstError
                          else Some ''Could not fetch user.'')
                         USER_NOT_FOUND),
                  logger_error (firstError # others) st2))
       \<and> (error_type firstError \<noteq> Some ''NOT_FOUND'' \<and> truthy (error_message firstError) \<longrightarrow>
            (\<exists>text. error_message firstError = Some text \<and>
               fetchTopLanguages retryer wrap pow excludeRepositories
                 (Some username) exclude_repo size_weight count_weight st =
               Some (Inl (CustomError (first_elem (wrap text 90 1))
                            (StatusText (res_statusText res))),
                     logger_error (firstError # others) st2) \<and>
               (wrapsWithin wrap \<longrightarrow>
                  (\<forall>line. first_elem (wrap text 90 1) = Some line \<longrightarrow> length line \<le> 90))))
       \<and> (error_type firstError \<noteq> Some ''NOT_FOUND'' \<and> \<not> truthy (error_message firstError) \<longrightarrow>
            fetchTopLanguages retryer wrap pow excludeRepositories
              (Some username) exclude_repo size_weight count_weight st =
            Some (Inl (CustomError
                         (Some ''Something went wrong while trying to retrieve the language data using the GraphQL API.'')
                         GRAPHQL_ERROR),
                  logger_error (firstError # others) st2))"
proof -
  have thrown: "fetchTopLanguages retryer wrap pow excludeRepositories
           (Some username) exclude_repo size_weight count_weight st =
         Some (Inl (graphql_failure wrap (firstError # others) (res_statusText res)),
               logger_error (firstError # others) st2)"
    by (rule fetch_errors [OF assms])
  have "\<exists>text. error_message firstError = Some text" if "truthy (error_message firstError)"
    using that by (cases "error_message firstError") simp_all
  then show ?thesis
    using first_line_within [of wrap _ 90 1] by (auto simp: thrown)
qed

theorem error_envelope_witness:
  "fetchTopLanguages scripted cut power01 [] (Some ''octocat'') None None None
     (initial [failure [not_found]]) =
   Some (Inl (CustomError (Some ''Could not resolve to a User with the login of octocat.'')
                USER_NOT_FOUND),
         \<lparr>world = [], calls = [\<lparr>login = ''octocat'', reposAfter = None\<rparr>],
          logged = [[not_found]]\<rparr>)
   \<and> fetchTopLanguages scripted cut power01 [] (Some ''octocat'') None None None
       (initial (fails_on_second_page [rate_limited])) =
     Some (Inl (CustomError (Some ''API rate limit exceeded'') (StatusText ''OK'')),
           \<lparr>world = [], calls = [\<lparr>login = ''octocat'', reposAfter = None\<rparr>,
                                 \<lparr>login = ''octocat'', reposAfter = Some ''c1''\<rparr>],
            logged = [[rate_limited]]\<rparr>)
   \<and> fetchTopLanguages scripted cut power01 [] (Some ''octocat'') None None None
       (initial [failure [nameless]]) =
     Some (Inl (CustomError
                  (Some ''Something went wrong while trying to retrieve the language data using the GraphQL API.'')
                  GRAPHQL_ERROR),
           \<lparr>world = [], calls = [\<lparr>login = ''octocat'', reposAfter = None\<rparr>],
            logged = [[nameless]]\<rparr>)
   \<and> wrapsWithin cut"
  using error_envelope [of "''octocat''" scripted "[]" "initial [failure [not_found]]" None
      "initial [failure [not_found]]" "failure [not_found]"
      "\<lparr>world = [], calls = [\<lparr>login = ''octocat'', reposAfter = None\<rparr>], logged = []\<rparr>"
      not_found "[]" cut power01 "[]" None None None]
    error_envelope [of "''octocat''" scripted "[page True (Some ''c1'') [sample_a]]"
      "initial (fails_on_second_page [rate_limited])" "Some ''c1''"
      "\<lparr>world = [failure [rate_limited]],
        calls = [\<lparr>login = ''octocat'', reposAfter = None\<rparr>], logged = []\<rparr>"
      "failure [rate_limited]"
      "\<lparr>world = [], calls = [\<lparr>login = ''octocat'', reposAfter = None\<rparr>,
                                 \<lparr>login = ''octocat'', reposAfter = Some ''c1''\<rparr>], logged = []\<rparr>"
      rate_limited "[]" cut power01 "[]" None None None]
    error_envelope [of "''octocat''" scripted "[]" "initial [failure [nameless]]" None
      "initial [failure [nameless]]" "failure [nameless]"
      "\<lparr>world = [], calls = [\<lparr>login = ''octocat'', reposAfter = None\<rparr>], logged = []\<rparr>"
      nameless "[]" cut power01 "[]" None None None]
    cut_wrapsWithin
  by (simp add: sample_defs fails_on_second_page_def not_found_def rate_limited_def nameless_def
      cut_def)

text \<open>
  Claim C10. When a page response carries a non-empty error list, the error thrown is
  the one the first entry alone would give: the entries after the first are logged but
  change neither the class nor the message of the error. In particular no later
  \<open>NOT_FOUND\<close> entry turns the error into \<open>USER_NOT_FOUND\<close> when the first entry has
  another type.
\<close>

theorem first_error_decides:
  assumes "username \<noteq> []"
    and "turnPages retryer username ps None st = Some (c, st1)"
    and "call_retryer retryer \<lparr>login = username, reposAfter = c\<rparr> st1 = (Inr res, st2)"
    and "res_errors res = Some (firstError # others)"
  shows "fetchTopLanguages retryer wrap pow excludeRepositories
           (Some username) exclude_repo size_weight count_weight st =
         Some (Inl (graphql_failure wrap [firstError] (res_statusText res)),
               logger_error (firstError # others) st2)
       \<and> (error_type firstError \<noteq> Some ''NOT_FOUND'' \<longrightarrow>
            (\<forall>message. graphql_failure wrap [firstError] (res_statusText res) \<noteq>
                         CustomError message USER_NOT_FOUND))"
proof -
  have "graphql_failure wrap (firstError # others) (res_statusText res) =
        graphql_failure wrap [firstError] (res_statusText res)"
    by simp
  with fetch_errors [OF assms, of wrap pow excludeRepositories exclude_repo size_weight count_weight]
  show ?thesis by simp
qed

theorem first_error_decides_witness:
  "fetchTopLanguages scripted cut power01 [] (Some ''octocat'') None None None
     (initial [failure [rate_limited, not_found]]) =
   Some (Inl (CustomError (Some ''API rate limit exceeded'') (StatusText ''OK'')),
         \<lparr>world = [], calls = [\<lparr>login = ''octocat'', reposAfter = None\<rparr>],
          logged = [[rate_limited, not_found]]\<rparr>)"
  using first_error_decides [of "''octocat''" scripted "[]" "initial [failure [rate_limited, not_found]]"
      None "initial [failure [rate_limited, not_found]]" "failure [rate_limited, not_found]"
      "\<lparr>world = [], calls = [\<lparr>login = ''octocat'', reposAfter = None\<rparr>], logged = []\<rparr>"
      rate_limited "[not_found]" cut power01 "[]" None None None]
  by (simp add: sample_defs not_found_def rate_limited_def cut_def)

section \<open>Properties of the aggregation\<close>

subsection \<open>Numbers\<close>




lemma js_mul_one: "js_mul x (Num 1) = x"
  by (cases x) auto

subsection \<open>Sorting\<close>

lemma set_insert_sorted: "set (insert_sorted cmp x ys) = insert x (set ys)"
  by (induction ys) auto

lemma length_insert_sorted: "length (insert_sorted cmp x ys) = Suc (length ys)"
  by (induction ys) auto

lemma mset_insert_sorted: "mset (insert_sorted cmp x ys) = add_mset x (mset ys)"
  by (induction ys) auto

lemma distinct_insert_sorted: "distinct (insert_sorted cmp x ys) = (x \<notin> set ys \<and> distinct ys)"
  by (induction ys) (auto simp: set_insert_sorted)

lemma js_sort_Cons: "js_sort cmp (x # xs) = insert_sorted cmp x (js_sort cmp xs)"
  by (simp add: js_sort_def)

lemma js_sort_Nil: "js_sort cmp [] = []"
  by (simp add: js_sort_def)

lemma set_js_sort: "set (js_sort cmp xs) = set xs"
  by (induction xs) (simp_all add: js_sort_Nil js_sort_Cons set_insert_sorted)

lemma mset_js_sort: "mset (js_sort cmp xs) = mset xs"
  by (induction xs) (simp_all add: js_sort_Nil js_sort_Cons mset_insert_sorted)

lemma length_js_sort: "length (js_sort cmp xs) = length xs"
  by (induction xs) (simp_all add: js_sort_Nil js_sort_Cons length_insert_sorted)

lemma distinct_js_sort: "distinct (js_sort cmp xs) = distinct xs"
  by (induction xs) (simp_all add: js_sort_Nil js_sort_Cons distinct_insert_sorted set_js_sort)



subsection \<open>The sort of the repositories\<close>

text \<open>Nodes without a size stay in the order of their collection.\<close>

lemma insert_unsized:
  "repo_size x = None \<Longrightarrow> insert_sorted repo_compare x ys = x # ys"
  by (cases ys) (simp_all add: repo_compare_def split: option.splits)

lemma js_sort_unsized:
  "\<forall>n \<in> set ns. repo_size n = None \<Longrightarrow> js_sort repo_compare ns = ns"
  by (induction ns) (simp_all add: js_sort_Nil js_sort_Cons insert_unsized)

text \<open>Nodes that all carry a size are sorted by descending size, stably.\<close>

lemma insert_sized:
  assumes "repo_size x \<noteq> None" and "\<forall>y \<in> set ys. repo_size y \<noteq> None"
  shows "insert_sorted repo_compare x ys = insort_key (\<lambda>n. - the (repo_size n)) x ys"
  using assms by (induction ys) (auto simp: repo_compare_def)

lemma js_sort_sized:
  "\<forall>n \<in> set ns. repo_size n \<noteq> None \<Longrightarrow>
   js_sort repo_compare ns = sort_key (\<lambda>n. - the (repo_size n)) ns"
proof (induction ns)
  case Nil
  show ?case by (simp add: js_sort_Nil)
next
  case (Cons n ns)
  then have "js_sort repo_compare ns = sort_key (\<lambda>n. - the (repo_size n)) ns" by simp
  moreover have "\<forall>y \<in> set (sort_key (\<lambda>n. - the (repo_size n)) ns). repo_size y \<noteq> None"
    using Cons.prems by simp
  ultimately show ?case
    using Cons.prems by (simp add: js_sort_Cons insert_sized)
qed


subsection \<open>Exclusion\<close>

lemma map_of_marked:
  "map_of (map (\<lambda>name. (name, True)) xs) n = (if n \<in> set xs then Some True else None)"
  by (induction xs) auto

lemma hidden_iff:
  "hidden (repoToHide exclude_repo excludeRepositories) n \<longleftrightarrow>
   n \<in> set exclude_repo \<or> n \<in> set excludeRepositories \<or> inheritedName n"
  by (auto simp: hidden_def repoToHide_def map_of_marked map_add_def inheritedName_def
      split: option.splits)

text \<open>When no repository is named like an inherited property, only the lists hide.\<close>

lemma visible_filter:
  assumes "\<forall>n \<in> set ns. \<not> inheritedName (repo_name n)"
  shows "filter (\<lambda>repo. \<not> hidden (repoToHide exclude_repo excludeRepositories) (repo_name repo)) ns =
         nonExcluded exclude_repo excludeRepositories ns"
  using assms by (induction ns) (auto simp: hidden_iff nonExcluded_def)

lemma mset_visibleRepos:
  assumes "\<forall>n \<in> set ns. \<not> inheritedName (repo_name n)"
  shows "mset (visibleRepos exclude_repo excludeRepositories ns) =
         mset (nonExcluded exclude_repo excludeRepositories ns)"
proof -
  have "mset (visibleRepos exclude_repo excludeRepositories ns) =
        mset (filter (\<lambda>repo. \<not> hidden (repoToHide exclude_repo excludeRepositories) (repo_name repo)) ns)"
    by (simp add: visibleRepos_def mset_js_sort)
  then show ?thesis by (simp only: visible_filter [OF assms])
qed

lemma set_visibleRepos:
  assumes "\<forall>n \<in> set ns. \<not> inheritedName (repo_name n)"
  shows "set (visibleRepos exclude_repo excludeRepositories ns) =
         set (nonExcluded exclude_repo excludeRepositories ns)"
  using mset_visibleRepos [OF assms] by (metis set_mset_mset)

subsection \<open>The fold into the statistics\<close>

lemma edge_name_proto_inherited: "inheritedName ''__proto__''"
  by (simp add: inheritedName_def objectPrototypeKeys_def)

lemma languageStats_snoc: "languageStats (es @ [e]) = addEdge e (languageStats es)"
  by (simp add: languageStats_def)

lemma languageStats_Nil: "languageStats [] = \<lparr>own_props = [], prototype = None\<rparr>"
  by (simp add: languageStats_def)

lemma edgesNamed_snoc:
  "edgesNamed l (es @ [e]) = (if edge_name e = l then edgesNamed l es @ [e] else edgesNamed l es)"
  by (simp add: edgesNamed_def)

lemma edgesNamed_append: "edgesNamed l (xs @ ys) = edgesNamed l xs @ edgesNamed l ys"
  by (simp add: edgesNamed_def)

text \<open>An edge named \<^verbatim>\<open>__proto__\<close> leaves the own properties alone.\<close>

lemma addEdge_proto:
  "edge_name e = ''__proto__'' \<Longrightarrow> own_props (addEdge e acc) = own_props acc"
  by (simp add: addEdge_def edge_name_def set_prop_def split: looked_up.splits)

text \<open>
  Any other edge writes the own property of its language, with its own name and
  colour.
\<close>

lemma addEdge_own:
  assumes "edge_name e \<noteq> ''__proto__''"
  obtains r where "own_props (addEdge e acc) = AList.update (edge_name e) r (own_props acc)"
    and "stat_name r = edge_name e" and "stat_color r = node_color (edge_node e)"
  using assms
  by (cases "get_prop acc (edge_name e)") (auto simp: addEdge_def edge_name_def set_prop_def)

lemma distinct_addEdge:
  "distinct (map fst (own_props acc)) \<Longrightarrow> distinct (map fst (own_props (addEdge e acc)))"
proof (cases "edge_name e = ''__proto__''")
  case True
  assume "distinct (map fst (own_props acc))"
  with True show ?thesis by (simp add: addEdge_proto)
next
  case False
  assume d: "distinct (map fst (own_props acc))"
  from False obtain r where "own_props (addEdge e acc) = AList.update (edge_name e) r (own_props acc)"
    by (rule addEdge_own)
  with d show ?thesis by (simp add: AList.distinct_update)
qed

lemma distinct_languageStats: "distinct (map fst (own_props (languageStats es)))"
proof (induction es rule: rev_induct)
  case Nil
  show ?case by (simp add: languageStats_Nil)
next
  case (snoc e es)
  then show ?case by (simp add: languageStats_snoc distinct_addEdge)
qed

lemma no_own_proto: "map_of (own_props (languageStats es)) ''__proto__'' = None"
proof (induction es rule: rev_induct)
  case Nil
  show ?case by (simp add: languageStats_Nil)
next
  case (snoc e es)
  show ?case
  proof (cases "edge_name e = ''__proto__''")
    case True
    with snoc show ?thesis by (simp add: languageStats_snoc addEdge_proto)
  next
    case False
    then obtain r where
      "own_props (addEdge e (languageStats es)) =
       AList.update (edge_name e) r (own_props (languageStats es))"
      by (rule addEdge_own)
    with snoc False show ?thesis
      by (simp add: languageStats_snoc AList.update_conv')
  qed
qed

text \<open>
  Whatever the names: an own entry of the statistics carries its key as name and the
  colour of the last edge of its language.
\<close>

lemma colour_languageStats:
  "map_of (own_props (languageStats es)) l = Some s \<Longrightarrow>
   edgesNamed l es \<noteq> [] \<and> stat_name s = l \<and>
   stat_color s = node_color (edge_node (last (edgesNamed l es)))"
proof (induction es arbitrary: s rule: rev_induct)
  case Nil
  then show ?case by (simp add: languageStats_Nil)
next
  case (snoc e es)
  from snoc.prems no_own_proto [of "es @ [e]"] have l: "l \<noteq> ''__proto__''" by auto
  show ?case
  proof (cases "edge_name e = ''__proto__''")
    case True
    with snoc.prems have "map_of (own_props (languageStats es)) l = Some s"
      by (simp add: languageStats_snoc addEdge_proto)
    from snoc.IH [OF this] True l show ?thesis by (simp add: edgesNamed_snoc)
  next
    case False
    then obtain r where own:
      "own_props (addEdge e (languageStats es)) =
       AList.update (edge_name e) r (own_props (languageStats es))"
      and r: "stat_name r = edge_name e" "stat_color r = node_color (edge_node e)"
      by (rule addEdge_own)
    show ?thesis
    proof (cases "edge_name e = l")
      case True
      with snoc.prems own have "s = r"
        by (simp add: languageStats_snoc AList.update_conv')
      with True r show ?thesis by (simp add: edgesNamed_snoc)
    next
      case False
      with snoc.prems own have "map_of (own_props (languageStats es)) l = Some s"
        by (simp add: languageStats_snoc AList.update_conv')
      from snoc.IH [OF this] False show ?thesis by (simp add: edgesNamed_snoc)
    qed
  qed
qed

text \<open>
  When no language is named like an inherited property, the prototype is never
  replaced, and a language has the sum of the sizes of its edges and their number.
\<close>

lemma plain_languageStats:
  assumes "\<forall>e \<in> set es. \<not> inheritedName (edge_name e)"
  shows "prototype (languageStats es) = None \<and>
    (\<forall>l. map_of (own_props (languageStats es)) l =
      (if edgesNamed l es = [] then None
       else Some \<lparr>stat_name = l,
                  stat_color = node_color (edge_node (last (edgesNamed l es))),
                  stat_size = Num (real_of_int (sum_list (map edge_size (edgesNamed l es)))),
                  stat_count = Num (real (length (edgesNamed l es)))\<rparr>))"
  using assms
proof (induction es rule: rev_induct)
  case Nil
  show ?case by (simp add: languageStats_Nil edgesNamed_def)
next
  case (snoc e es)
  let ?acc = "languageStats es"
  let ?k = "edge_name e"
  from snoc have proto: "prototype ?acc = None"
    and look: "\<And>l. map_of (own_props ?acc) l =
      (if edgesNamed l es = [] then None
       else Some \<lparr>stat_name = l,
                  stat_color = node_color (edge_node (last (edgesNamed l es))),
                  stat_size = Num (real_of_int (sum_list (map edge_size (edgesNamed l es)))),
                  stat_count = Num (real (length (edgesNamed l es)))\<rparr>)"
    by simp_all
  from snoc.prems have plain: "\<not> inheritedName ?k" by simp
  then have k: "?k \<noteq> ''__proto__''" "?k \<notin> set objectPrototypeKeys"
    using edge_name_proto_inherited by (auto simp: inheritedName_def)
  have get: "get_prop ?acc ?k =
      (case map_of (own_props ?acc) ?k of Some lang \<Rightarrow> Stat lang | None \<Rightarrow> Falsy)"
    using proto k by (simp add: get_prop_def split: option.splits)
  show ?case
  proof (cases "edgesNamed ?k es = []")
    case True
    then have "get_prop ?acc ?k = Falsy" by (simp add: get look)
    then have step: "addEdge e ?acc =
        ?acc\<lparr>own_props := AList.update ?k
          \<lparr>stat_name = ?k, stat_color = node_color (edge_node e),
           stat_size = Num (real_of_int (edge_size e)), stat_count = Num 1\<rparr> (own_props ?acc)\<rparr>"
      using k by (simp add: addEdge_def edge_name_def set_prop_def)
    show ?thesis
      using True by (auto simp: languageStats_snoc step proto look AList.update_conv' edgesNamed_snoc)
  next
    case False
    then have "get_prop ?acc ?k =
        Stat \<lparr>stat_name = ?k,
              stat_color = node_color (edge_node (last (edgesNamed ?k es))),
              stat_size = Num (real_of_int (sum_list (map edge_size (edgesNamed ?k es)))),
              stat_count = Num (real (length (edgesNamed ?k es)))\<rparr>"
      by (simp add: get look)
    then have step: "addEdge e ?acc =
        ?acc\<lparr>own_props := AList.update ?k
          \<lparr>stat_name = ?k, stat_color = node_color (edge_node e),
           stat_size = Num (real_of_int (sum_list (map edge_size (edgesNamed ?k es))) + real_of_int (edge_size e)),
           stat_count = Num (real (length (edgesNamed ?k es)) + 1)\<rparr> (own_props ?acc)\<rparr>"
      using k by (simp add: addEdge_def edge_name_def set_prop_def)
    show ?thesis
      using False by (auto simp: languageStats_snoc step proto look AList.update_conv' edgesNamed_snoc)
  qed
qed

subsection \<open>Weighting\<close>

lemma keys_weigh: "map fst (own_props (weigh pow sw cw stats)) = map fst (own_props stats)"
  by (simp add: weigh_def case_prod_beta comp_def)

lemma map_of_weigh:
  "map_of (own_props (weigh pow sw cw stats)) l =
   map_option (\<lambda>lang. lang\<lparr>stat_size := js_mul (pow (stat_size lang) sw) (pow (stat_count lang) cw)\<rparr>)
     (map_of (own_props stats) l)"
proof -
  have "map_of (map (\<lambda>(name, lang).
              (name, lang\<lparr>stat_size := js_mul (pow (stat_size lang) sw) (pow (stat_count lang) cw)\<rparr>)) ps) l =
        map_option (\<lambda>lang. lang\<lparr>stat_size := js_mul (pow (stat_size lang) sw) (pow (stat_count lang) cw)\<rparr>)
          (map_of ps l)" for ps
    by (induction ps) auto
  then show ?thesis by (simp add: weigh_def)
qed

lemma distinct_weighed: "distinct (map fst (own_props (weigh pow sw cw (languageStats es))))"
  by (simp add: keys_weigh distinct_languageStats)

lemma no_own_proto_weighed:
  "''__proto__'' \<notin> fst ` set (own_props (weigh pow sw cw (languageStats es)))"
proof -
  have "''__proto__'' \<notin> fst ` set (own_props (languageStats es))"
    using no_own_proto [of es] by (simp add: map_of_eq_None_iff)
  moreover have "fst ` set (own_props (weigh pow sw cw (languageStats es))) =
                 fst ` set (own_props (languageStats es))"
    using keys_weigh [of pow sw cw "languageStats es"] by (metis set_map)
  ultimately show ?thesis by simp
qed

subsection \<open>The order of the keys\<close>

lemma set_objectKeys: "set (objectKeys props) = fst ` set props"
  by (auto simp: objectKeys_def)

lemma distinct_objectKeys: "distinct (map fst props) \<Longrightarrow> distinct (objectKeys props)"
  by (auto simp: objectKeys_def distinct_map_filter)

lemma length_objectKeys: "length (objectKeys props) = length props"
proof -
  have "length (filter P xs) + length (filter (\<lambda>x. \<not> P x) xs) = length xs" for P and xs :: "string list"
    by (induction xs) auto
  from this [of "\<lambda>key. array_index key \<noteq> None" "map fst props"]
  show ?thesis by (simp add: objectKeys_def)
qed




subsection \<open>Sorting the keys and rebuilding the object\<close>

lemma update_fresh: "k \<notin> fst ` set al \<Longrightarrow> AList.update k v al = al @ [(k, v)]"
  by (induction al) auto

lemma fold_set_prop_fresh:
  "distinct ks \<Longrightarrow> ''__proto__'' \<notin> set ks \<Longrightarrow> set ks \<inter> fst ` set (own_props acc) = {} \<Longrightarrow>
   fold (\<lambda>key result. set_prop key (g key) result) ks acc =
   acc\<lparr>own_props := own_props acc @ map (\<lambda>key. (key, g key)) ks\<rparr>"
proof (induction ks arbitrary: acc)
  case Nil
  show ?case by simp
next
  case (Cons k ks)
  from Cons.prems have fresh: "k \<notin> fst ` set (own_props acc)" and k: "k \<noteq> ''__proto__''"
    by auto
  let ?acc = "acc\<lparr>own_props := own_props acc @ [(k, g k)]\<rparr>"
  have step: "set_prop k (g k) acc = ?acc"
    using fresh k by (simp add: set_prop_def update_fresh)
  from Cons.prems have "set ks \<inter> fst ` set (own_props ?acc) = {}" by auto
  with Cons have "fold (\<lambda>key result. set_prop key (g key) result) ks ?acc =
      ?acc\<lparr>own_props := own_props ?acc @ map (\<lambda>key. (key, g key)) ks\<rparr>"
    by simp
  then show ?case by (simp add: step)
qed

text \<open>Every key that is sorted is an own key, so its lookup is defined.\<close>

lemma keys_defined:
  "key \<in> set (objectKeys (own_props stats)) \<Longrightarrow> map_of (own_props stats) key \<noteq> None"
  by (simp add: set_objectKeys map_of_eq_None_iff)

lemma topLangs_sorted_keys:
  assumes "distinct (map fst (own_props stats))"
    and "''__proto__'' \<notin> fst ` set (own_props stats)"
  shows "topLangs stats =
         \<lparr>own_props =
            map (\<lambda>key. (key, the (map_of (own_props stats) key)))
              (js_sort (size_compare stats) (objectKeys (own_props stats))),
          prototype = None\<rparr>"
proof -
  let ?keys = "js_sort (size_compare stats) (objectKeys (own_props stats))"
  have "distinct ?keys"
    using assms(1) by (simp add: distinct_js_sort distinct_objectKeys)
  moreover have "''__proto__'' \<notin> set ?keys"
    using assms(2) by (simp add: set_js_sort set_objectKeys)
  ultimately show ?thesis
    by (simp add: topLangs_def fold_set_prop_fresh)
qed

lemma map_of_keyed: "map_of (map (\<lambda>k. (k, g k)) ks) l = (if l \<in> set ks then Some (g l) else None)"
  by (induction ks) auto

lemma map_of_topLangs:
  assumes "distinct (map fst (own_props stats))"
    and "''__proto__'' \<notin> fst ` set (own_props stats)"
  shows "map_of (own_props (topLangs stats)) l = map_of (own_props stats) l"
proof (cases "map_of (own_props stats) l")
  case None
  then have "l \<notin> fst ` set (own_props stats)" by (simp add: map_of_eq_None_iff)
  with None show ?thesis
    by (simp add: topLangs_sorted_keys [OF assms] map_of_keyed set_js_sort set_objectKeys)
next
  case (Some v)
  then have "(l, v) \<in> set (own_props stats)" by (rule map_of_SomeD)
  then have "l \<in> fst ` set (own_props stats)" by force
  with Some show ?thesis
    by (simp add: topLangs_sorted_keys [OF assms] map_of_keyed set_js_sort set_objectKeys)
qed





subsection \<open>Order of the edges\<close>

lemma mset_allEdges_sum: "mset (allEdges xs) = (\<Sum>n \<in># mset xs. mset (edge_list n))"
  by (induction xs) (simp_all add: allEdges_def)

lemma mset_allEdges: "mset xs = mset ys \<Longrightarrow> mset (allEdges xs) = mset (allEdges ys)"
  by (simp add: mset_allEdges_sum)

lemma mset_foldOrder: "mset (foldOrder xs) = mset (allEdges xs)"
proof -
  have "mset (rev xs) = mset xs" by simp
  from mset_allEdges [OF this] show ?thesis
    by (simp add: foldOrder_def allEdges_def rev_map)
qed

lemma mset_edgesNamed: "mset xs = mset ys \<Longrightarrow> mset (edgesNamed l xs) = mset (edgesNamed l ys)"
  by (simp add: edgesNamed_def)

lemma length_same_edges:
  assumes "mset xs = mset ys"
  shows "length (edgesNamed l xs) = length (edgesNamed l ys)"
  using mset_edgesNamed [OF assms, of l] by (metis size_mset)

lemma sum_same_edges:
  assumes "mset xs = mset ys"
  shows "sum_list (map edge_size (edgesNamed l xs)) = sum_list (map edge_size (edgesNamed l ys))"
proof -
  have "mset (map edge_size (edgesNamed l xs)) = mset (map edge_size (edgesNamed l ys))"
    using mset_edgesNamed [OF assms, of l] by simp
  then show ?thesis by (metis sum_mset_sum_list)
qed

lemma empty_same_edges:
  assumes "mset xs = mset ys"
  shows "edgesNamed l xs = [] \<longleftrightarrow> edgesNamed l ys = []"
  using length_same_edges [OF assms, of l] by (metis length_0_conv)

subsection \<open>Edge lists\<close>

lemma languages_edges_total:
  "languages_edges n = Inl TypeError \<or> (\<exists>es. languages_edges n = Inr es)"
  by (simp add: languages_edges_def split: option.splits)

lemma languages_edges_cases:
  obtains "languages_edges n = Inl TypeError" | es where "languages_edges n = Inr es"
  using languages_edges_total [of n] by blast

lemma filterNonEmpty_ok:
  "\<forall>n \<in> set ns. \<exists>es. languages_edges n = Inr es \<Longrightarrow>
   filterNonEmpty ns = Inr (filter (\<lambda>n. edge_list n \<noteq> []) ns)"
  by (induction ns) (auto simp: edge_list_def)

lemma filterNonEmpty_raises:
  "\<exists>n \<in> set ns. languages_edges n = Inl TypeError \<Longrightarrow> filterNonEmpty ns = Inl TypeError"
proof (induction ns)
  case Nil
  then show ?case by simp
next
  case (Cons n ns)
  show ?case
  proof (cases rule: languages_edges_cases [of n])
    case 1
    then show ?thesis by simp
  next
    case (2 es)
    with Cons.prems have "\<exists>m \<in> set ns. languages_edges m = Inl TypeError" by auto
    then have "filterNonEmpty ns = Inl TypeError" by (rule Cons.IH)
    with 2 show ?thesis by simp
  qed
qed

lemma fold_flatten_step:
  "\<forall>n \<in> set ns. \<exists>es. languages_edges n = Inr es \<Longrightarrow>
   fold flatten_step ns (Inr acc) = Inr (concat (rev (map edge_list ns)) @ acc)"
proof (induction ns arbitrary: acc)
  case Nil
  show ?case by simp
next
  case (Cons n ns)
  then obtain es where es: "languages_edges n = Inr es" by auto
  then have "flatten_step n (Inr acc) = Inr (edge_list n @ acc)"
    by (simp add: flatten_step_def edge_list_def)
  with Cons show ?case by simp
qed

lemma concat_drop_empty: "concat (map f (filter (\<lambda>n. f n \<noteq> []) ns)) = concat (map f ns)"
  by (induction ns) auto

lemma flatten_filtered:
  assumes "\<forall>n \<in> set ns. \<exists>es. languages_edges n = Inr es"
  shows "flattenEdges (filter (\<lambda>n. edge_list n \<noteq> []) ns) = Inr (foldOrder ns)"
proof -
  have "flattenEdges (filter (\<lambda>n. edge_list n \<noteq> []) ns) =
        Inr (concat (rev (map edge_list (filter (\<lambda>n. edge_list n \<noteq> []) ns))))"
    using assms by (simp add: flattenEdges_def fold_flatten_step)
  also have "rev (map edge_list (filter (\<lambda>n. edge_list n \<noteq> []) ns)) =
             map edge_list (filter (\<lambda>n. edge_list n \<noteq> []) (rev ns))"
    by (simp add: rev_map rev_filter)
  also have "concat \<dots> = concat (map edge_list (rev ns))"
    by (rule concat_drop_empty)
  finally show ?thesis by (simp add: foldOrder_def rev_map)
qed

subsection \<open>The aggregation as a whole\<close>

lemma aggregate_ok:
  assumes "\<forall>n \<in> set (visibleRepos exclude_repo excludeRepositories ns). \<exists>es. languages_edges n = Inr es"
  shows "aggregate pow exclude_repo excludeRepositories sw cw ns =
         Inr (topLangs (weigh pow sw cw
                (languageStats (foldOrder (visibleRepos exclude_repo excludeRepositories ns)))))"
  using assms
  by (simp add: aggregate_def filterNonEmpty_ok flatten_filtered)

lemma aggregate_raises:
  assumes "\<exists>n \<in> set (visibleRepos exclude_repo excludeRepositories ns). languages_edges n = Inl TypeError"
  shows "aggregate pow exclude_repo excludeRepositories sw cw ns = Inl TypeError"
  using assms
  by (simp add: aggregate_def filterNonEmpty_raises)

lemma aggregate_Inr:
  assumes "aggregate pow exclude_repo excludeRepositories sw cw ns = Inr out"
  shows "out = topLangs (weigh pow sw cw
                (languageStats (foldOrder (visibleRepos exclude_repo excludeRepositories ns))))"
proof (cases "\<exists>n \<in> set (visibleRepos exclude_repo excludeRepositories ns). languages_edges n = Inl TypeError")
  case True
  then show ?thesis using assms aggregate_raises [OF True, of pow sw cw] by simp
next
  case False
  then have "\<forall>n \<in> set (visibleRepos exclude_repo excludeRepositories ns). \<exists>es. languages_edges n = Inr es"
    using languages_edges_total by blast
  from aggregate_ok [OF this, of pow sw cw] assms show ?thesis by simp
qed

text \<open>The output holds the weighted entries of the statistics.\<close>

lemma aggregate_entry:
  assumes "aggregate pow exclude_repo excludeRepositories sw cw ns = Inr out"
  shows "map_of (own_props out) l =
         map_option (\<lambda>lang. lang\<lparr>stat_size := js_mul (pow (stat_size lang) sw) (pow (stat_count lang) cw)\<rparr>)
           (map_of (own_props (languageStats
              (foldOrder (visibleRepos exclude_repo excludeRepositories ns)))) l)"
  by (simp add: aggregate_Inr [OF assms] map_of_topLangs [OF distinct_weighed no_own_proto_weighed]
      map_of_weigh)


text \<open>Whatever the names, an entry has the colour of the last edge of its language.\<close>

lemma aggregate_colour:
  assumes "aggregate pow exclude_repo excludeRepositories sw cw ns = Inr out"
    and "map_of (own_props out) l = Some s"
  shows "edgesNamed l (foldOrder (visibleRepos exclude_repo excludeRepositories ns)) \<noteq> []"
    and "stat_name s = l"
    and "stat_color s = node_color (edge_node (last
           (edgesNamed l (foldOrder (visibleRepos exclude_repo excludeRepositories ns)))))"
proof -
  let ?es = "foldOrder (visibleRepos exclude_repo excludeRepositories ns)"
  from assms(2) aggregate_entry [OF assms(1), of l]
  obtain raw where raw: "map_of (own_props (languageStats ?es)) l = Some raw"
    and s: "s = raw\<lparr>stat_size := js_mul (pow (stat_size raw) sw) (pow (stat_count raw) cw)\<rparr>"
    by (cases "map_of (own_props (languageStats ?es)) l") auto
  from colour_languageStats [OF raw] s
  show "edgesNamed l ?es \<noteq> []" and "stat_name s = l"
    and "stat_color s = node_color (edge_node (last (edgesNamed l ?es)))"
    by simp_all
qed

text \<open>
  When neither a repository nor a language is named like an inherited property, the
  output holds exactly the languages of the non-excluded repositories, each with the
  number of its edges and the weighted sum of their sizes.
\<close>

lemma aggregate_plain:
  assumes agg: "aggregate pow exclude_repo excludeRepositories sw cw ns = Inr out"
    and repos: "\<forall>n \<in> set ns. \<not> inheritedName (repo_name n)"
    and langs: "\<forall>e \<in> set (allEdges (nonExcluded exclude_repo excludeRepositories ns)).
                  \<not> inheritedName (edge_name e)"
  shows "map_of (own_props out) l =
    (if edgesNamed l (allEdges (nonExcluded exclude_repo excludeRepositories ns)) = [] then None
     else Some
       \<lparr>stat_name = l,
        stat_color = node_color (edge_node (last
          (edgesNamed l (foldOrder (visibleRepos exclude_repo excludeRepositories ns))))),
        stat_size =
          js_mul
            (pow (Num (real_of_int (sum_list (map edge_size
               (edgesNamed l (allEdges (nonExcluded exclude_repo excludeRepositories ns))))))) sw)
            (pow (Num (real (length
               (edgesNamed l (allEdges (nonExcluded exclude_repo excludeRepositories ns)))))) cw),
        stat_count = Num (real (length
          (edgesNamed l (allEdges (nonExcluded exclude_repo excludeRepositories ns)))))\<rparr>)"
proof -
  let ?V = "nonExcluded exclude_repo excludeRepositories ns"
  let ?es = "foldOrder (visibleRepos exclude_repo excludeRepositories ns)"
  have same: "mset ?es = mset (allEdges ?V)"
    using mset_allEdges [OF mset_visibleRepos [OF repos, of exclude_repo excludeRepositories]]
    by (simp add: mset_foldOrder)
  then have "set ?es = set (allEdges ?V)" by (metis set_mset_mset)
  with langs have "\<forall>e \<in> set ?es. \<not> inheritedName (edge_name e)" by simp
  from plain_languageStats [OF this]
  have raw: "map_of (own_props (languageStats ?es)) l =
      (if edgesNamed l ?es = [] then None
       else Some \<lparr>stat_name = l,
                  stat_color = node_color (edge_node (last (edgesNamed l ?es))),
                  stat_size = Num (real_of_int (sum_list (map edge_size (edgesNamed l ?es)))),
                  stat_count = Num (real (length (edgesNamed l ?es)))\<rparr>)"
    by simp
  show ?thesis
    unfolding aggregate_entry [OF agg] raw
    by (simp add: empty_same_edges [OF same] length_same_edges [OF same] sum_same_edges [OF same])
qed

subsection \<open>The aggregation on the sample inputs\<close>

lemmas aggregate_defs = aggregate_def visibleRepos_def js_sort_def repo_compare_def hidden_def
  repoToHide_def languages_edges_def flattenEdges_def flatten_step_def languageStats_def
  addEdge_def get_prop_def set_prop_def weigh_def topLangs_def size_compare_def power01_def
  orDefault_def objectKeys_def array_index_def decimal_def objectPrototypeKeys_def js_sub_def
  stat_def object_def

lemmas fixture_defs = repo_def sized_repo_def bare_repo_def lang_edge_def sample_a_def sample_b_def
  twice_listed_def recoloured_def recoloured_sized_def numbered_def with_constructor_def
  mixed_sizes_def

lemmas notion_defs = nonExcluded_def edge_list_def edge_name_def edgesNamed_def allEdges_def
  foldOrder_def listsLanguage_def distinctReposListing_def languages_edges_def
  inheritedName_def uniformSizes_def objectPrototypeKeys_def

text \<open>The two scenarios of the specification, with weights \<open>(1, 0)\<close> and \<open>(0, 1)\<close>.\<close>

lemma aggregate_scenario:
  "aggregate power01 [] [] (Num 1) (Num 0) [sample_a, sample_b] = Inr scenario_result"
  by (simp add: aggregate_defs fixture_defs scenario_result_def)


lemma aggregate_twice_listed:
  "aggregate power01 [] [] (Num 1) (Num 0) [twice_listed] =
   Inr (object [(''X'', stat ''X'' ''#222'' 30 2)])"
  by (simp add: aggregate_defs fixture_defs)

lemma aggregate_bare:
  "aggregate power01 [] [] (Num 1) (Num 0) [sample_a, bare_repo ''r''] = Inl TypeError"
  by (simp add: aggregate_defs fixture_defs)

lemma aggregate_recoloured:
  "aggregate power01 [] [] (Num 1) (Num 0) recoloured =
   Inr (object [(''X'', stat ''X'' ''#111'' 120 2)])"
  by (simp add: aggregate_defs fixture_defs)

lemma aggregate_recoloured_sized:
  "aggregate power01 [] [] (Num 1) (Num 0) recoloured_sized =
   Inr (object [(''X'', stat ''X'' ''#999'' 120 2)])"
  by (simp add: aggregate_defs fixture_defs)



lemma aggregate_with_constructor:
  "aggregate power01 [] [] (Num 1) (Num 0) with_constructor =
   Inr (object [(''X'', stat ''X'' ''#111'' 70 1)])"
  by (simp add: aggregate_defs fixture_defs)

text \<open>A language named like an inherited property has neither a size nor a count.\<close>

lemma aggregate_language_constructor:
  "aggregate power01 [] [] (Num 1) (Num 0) [repo ''a'' [lang_edge ''constructor'' ''#111'' 50]] =
   Inr (object [(''constructor'',
     \<lparr>stat_name = ''constructor'', stat_color = ''#111'', stat_size = NaN, stat_count = NaN\<rparr>)])"
  by (simp add: aggregate_defs fixture_defs)


text \<open>A weight that is not a number leaves every size not a number.\<close>

lemma aggregate_nan_weight:
  "aggregate power01 [] [] NaN (Num 0) [sample_a, sample_b] =
   Inr (object
     [(''X'', \<lparr>stat_name = ''X'', stat_color = ''#111'', stat_size = NaN, stat_count = Num 2\<rparr>),
      (''Y'', \<lparr>stat_name = ''Y'', stat_color = ''#222'', stat_size = NaN, stat_count = Num 1\<rparr>)])"
  by (simp add: aggregate_defs fixture_defs)

subsection \<open>Counting\<close>

lemma count_distinct_names:
  "distinct (map f xs) \<Longrightarrow> length (filter (\<lambda>x. f x = l) xs) = (if l \<in> set (map f xs) then 1 else 0)"
  by (induction xs) auto

lemma count_listing:
  assumes "\<forall>n \<in> set ns. distinct (map edge_name (edge_list n))"
  shows "length (edgesNamed l (allEdges ns)) = length (filter (listsLanguage l) ns)"
  using assms
proof (induction ns)
  case Nil
  show ?case by (simp add: allEdges_def edgesNamed_def)
next
  case (Cons n ns)
  then have "length (edgesNamed l (allEdges ns)) = length (filter (listsLanguage l) ns)" by simp
  moreover have "length (edgesNamed l (edge_list n)) = (if listsLanguage l n then 1 else 0)"
    using Cons.prems by (simp add: edgesNamed_def listsLanguage_def count_distinct_names)
  moreover have "allEdges (n # ns) = edge_list n @ allEdges ns"
    by (simp add: allEdges_def)
  ultimately show ?case by (simp add: edgesNamed_append)
qed

lemma listing_distinct_repos:
  assumes "distinct (map repo_name ns)"
  shows "length (filter (listsLanguage l) ns) = distinctReposListing l ns"
proof -
  have "distinct (map repo_name (filter (listsLanguage l) ns))"
    using assms by (rule distinct_map_filter)
  then show ?thesis by (simp add: distinctReposListing_def distinct_remdups_id)
qed

subsection \<open>Removing an excluded repository\<close>






text \<open>
  On a sequence that mixes nodes with and without a size the comparator of line 119 is
  not consistent: the node without a size compares equal to both others, which differ.
  Taking that node out changes the order in which the sort leaves the two others, and
  with it the colour that is recorded last; the sizes and the counts stay.
\<close>

lemma mixed_sizes_reorder:
  "aggregate power01 [''u''] [] (Num 1) (Num 0) mixed_sizes =
   Inr (object [(''X'', stat ''X'' ''#111'' 120 2)])"
  "aggregate power01 [''u''] [] (Num 1) (Num 0)
     [sized_repo ''a'' 1 [lang_edge ''X'' ''#111'' 50], sized_repo ''b'' 2 [lang_edge ''X'' ''#999'' 70]] =
   Inr (object [(''X'', stat ''X'' ''#999'' 120 2)])"
  by (simp_all add: aggregate_defs fixture_defs)

section \<open>Claims about the aggregation\<close>

text \<open>
  Claim C1, as stated, fails. A single repository whose edge list names the language
  \<open>X\<close> twice gives \<open>X\<close> the count 2, while one distinct repository lists it.
\<close>

theorem count_exceeds_repositories:
  "fetchTopLanguages scripted cut power01 [] (Some ''octocat'') None None None
     (initial [success (page False None [twice_listed])]) =
   Some (Inr (object [(''X'', stat ''X'' ''#222'' 30 2)]), after_one_call)
   \<and> distinctReposListing ''X'' (nonExcluded [] [] [twice_listed]) = 1"
proof (rule conjI)
  show "fetchTopLanguages scripted cut power01 [] (Some ''octocat'') None None None
     (initial [success (page False None [twice_listed])]) =
   Some (Inr (object [(''X'', stat ''X'' ''#222'' 30 2)]), after_one_call)"
    by (simp add: fetch_single_page aggregate_twice_listed orDefault_def)
  show "distinctReposListing ''X'' (nonExcluded [] [] [twice_listed]) = 1"
    by (simp add: notion_defs fixture_defs)
qed

text \<open>
  Claim C1, amended. Let no collected repository and no language of a non-excluded
  repository be named like a property that every object inherits (\<^verbatim>\<open>constructor\<close>,
  \<^verbatim>\<open>toString\<close>, ...). Then a language is in the output exactly when an edge of a
  non-excluded repository names it, and its count is the number of those edges: the
  fold counts edges, not repositories. The count is the number of distinct non-excluded
  repositories that list the language when no such repository names a language twice
  and no repository occurs twice in the node sequence.
\<close>

theorem count_is_edge_count:
  assumes "collectPages retryer wrap username None [] st = Some (Inr allRepoNodes, st1)"
    and "fetchTopLanguages retryer wrap pow excludeRepositories
           (Some username) exclude_repo size_weight count_weight st = Some (Inr out, st2)"
    and "\<forall>n \<in> set allRepoNodes. \<not> inheritedName (repo_name n)"
    and "\<forall>e \<in> set (allEdges (nonExcluded (orDefault [] exclude_repo) excludeRepositories allRepoNodes)).
           \<not> inheritedName (edge_name e)"
  shows "(map_of (own_props out) l \<noteq> None \<longleftrightarrow>
            edgesNamed l (allEdges
              (nonExcluded (orDefault [] exclude_repo) excludeRepositories allRepoNodes)) \<noteq> [])
       \<and> (\<forall>s. map_of (own_props out) l = Some s \<longrightarrow>
            stat_count s =
              Num (real (length (edgesNamed l (allEdges
                (nonExcluded (orDefault [] exclude_repo) excludeRepositories allRepoNodes)))))
            \<and> ((\<forall>n \<in> set (nonExcluded (orDefault [] exclude_repo) excludeRepositories allRepoNodes).
                   distinct (map edge_name (edge_list n)))
               \<and> distinct (map repo_name
                   (nonExcluded (orDefault [] exclude_repo) excludeRepositories allRepoNodes))
               \<longrightarrow> stat_count s =
                     Num (real (distinctReposListing l
                       (nonExcluded (orDefault [] exclude_repo) excludeRepositories allRepoNodes)))))"
proof -
  let ?V = "nonExcluded (orDefault [] exclude_repo) excludeRepositories allRepoNodes"
  have agg: "aggregate pow (orDefault [] exclude_repo) excludeRepositories
           (orDefault (Num 1) size_weight) (orDefault (Num 0) count_weight) allRepoNodes = Inr out"
    by (rule fetch_aggregate [OF assms(1,2)])
  note look = aggregate_plain [OF agg assms(3,4), of l]
  have reported: "map_of (own_props out) l \<noteq> None \<longleftrightarrow> edgesNamed l (allEdges ?V) \<noteq> []"
    by (simp add: look)
  have count: "stat_count s = Num (real (length (edgesNamed l (allEdges ?V))))"
    if "map_of (own_props out) l = Some s" for s
    using that by (auto simp: look split: if_splits)
  show ?thesis
    using reported count by (simp add: count_listing listing_distinct_repos)
qed

theorem count_is_edge_count_witness:
  "fetchTopLanguages scripted cut power01 [] (Some ''octocat'') None None None
     (initial two_pages) = Some (Inr scenario_result, after_two_calls)
   \<and> map_of (own_props scenario_result) ''X'' = Some (stat ''X'' ''#111'' 120 2)
   \<and> stat_count (stat ''X'' ''#111'' 120 2) =
       Num (real (length (edgesNamed ''X'' (allEdges (nonExcluded [] [] [sample_a, sample_b])))))
   \<and> stat_count (stat ''X'' ''#111'' 120 2) =
       Num (real (distinctReposListing ''X'' (nonExcluded [] [] [sample_a, sample_b])))
   \<and> distinctReposListing ''X'' (nonExcluded [] [] [sample_a, sample_b]) = 2"
proof -
  have run: "fetchTopLanguages scripted cut power01 [] (Some ''octocat'') None None None
      (initial two_pages) = Some (Inr scenario_result, after_two_calls)"
    by (simp add: fetch_two_pages aggregate_scenario orDefault_def)
  have repos: "\<forall>n \<in> set [sample_a, sample_b]. \<not> inheritedName (repo_name n)"
    by (simp add: notion_defs fixture_defs)
  have langs: "\<forall>e \<in> set (allEdges (nonExcluded (orDefault [] None) [] [sample_a, sample_b])).
      \<not> inheritedName (edge_name e)"
    by (simp add: notion_defs fixture_defs orDefault_def)
  have once: "(\<forall>n \<in> set (nonExcluded (orDefault [] None) [] [sample_a, sample_b]).
        distinct (map edge_name (edge_list n)))
      \<and> distinct (map repo_name (nonExcluded (orDefault [] None) [] [sample_a, sample_b]))"
    by (simp add: notion_defs fixture_defs orDefault_def)
  have look: "map_of (own_props scenario_result) ''X'' = Some (stat ''X'' ''#111'' 120 2)"
    by (simp add: scenario_result_def object_def)
  from count_is_edge_count [OF collect_two_pages run repos langs, of "''X''"] look once
  have "stat_count (stat ''X'' ''#111'' 120 2) =
      Num (real (length (edgesNamed ''X'' (allEdges
        (nonExcluded (orDefault [] None) [] [sample_a, sample_b])))))"
    and "stat_count (stat ''X'' ''#111'' 120 2) =
      Num (real (distinctReposListing ''X'' (nonExcluded (orDefault [] None) [] [sample_a, sample_b])))"
    by blast+
  then have counts: "stat_count (stat ''X'' ''#111'' 120 2) =
      Num (real (length (edgesNamed ''X'' (allEdges (nonExcluded [] [] [sample_a, sample_b])))))"
    "stat_count (stat ''X'' ''#111'' 120 2) =
      Num (real (distinctReposListing ''X'' (nonExcluded [] [] [sample_a, sample_b])))"
    by (simp_all only: orDefault_def option.case)
  have two: "distinctReposListing ''X'' (nonExcluded [] [] [sample_a, sample_b]) = 2"
    by (simp add: notion_defs fixture_defs)
  from run look counts two show ?thesis by blast
qed

text \<open>
  Claim C2 fails on the code through a defect of the exclusion filter. Of two
  repositories in no exclusion list that both list \<open>X\<close>, with 70 and 50 bytes, the
  one named \<^verbatim>\<open>constructor\<close> is dropped: \<^verbatim>\<open>repoToHide\<close> is a plain object, and
  \<^verbatim>\<open>repoToHide["constructor"]\<close> is the function that every object inherits, a truthy
  value. With the default weights the size reported for \<open>X\<close> is 70, while the sizes
  of its edges in the non-excluded repositories sum to 120.
\<close>

theorem constructor_repository_dropped:
  "fetchTopLanguages scripted cut power01 [] (Some ''octocat'') None None None
     (initial [success (page False None with_constructor)]) =
   Some (Inr (object [(''X'', stat ''X'' ''#111'' 70 1)]), after_one_call)
   \<and> nonExcluded [] [] with_constructor = with_constructor
   \<and> sum_list (map edge_size (edgesNamed ''X'' (allEdges (nonExcluded [] [] with_constructor)))) = 120"
proof (intro conjI)
  show "fetchTopLanguages scripted cut power01 [] (Some ''octocat'') None None None
     (initial [success (page False None with_constructor)]) =
   Some (Inr (object [(''X'', stat ''X'' ''#111'' 70 1)]), after_one_call)"
    by (simp add: fetch_single_page aggregate_with_constructor orDefault_def)
  show "nonExcluded [] [] with_constructor = with_constructor"
    by (simp add: nonExcluded_def)
  show "sum_list (map edge_size (edgesNamed ''X'' (allEdges (nonExcluded [] [] with_constructor)))) = 120"
    by (simp add: notion_defs fixture_defs)
qed

text \<open>
  Apart from that defect the weighting step leaves the summed bytes as they are. Let the
  weights be omitted or \<open>1\<close> and \<open>0\<close>, let the power function have \<open>pow x 1 = x\<close> and
  \<open>pow x 0 = 1\<close> as \<^verbatim>\<open>Math.pow\<close> has, and let no collected repository and no
  language of a non-excluded repository be named like an inherited property. Then every
  language that an edge of a non-excluded repository names is in the output, and its
  size is the sum of the sizes of those edges.
\<close>

lemma default_weights_raw_sum:
  assumes "collectPages retryer wrap username None [] st = Some (Inr allRepoNodes, st1)"
    and "fetchTopLanguages retryer wrap pow excludeRepositories
           (Some username) exclude_repo size_weight count_weight st = Some (Inr out, st2)"
    and "size_weight = None \<or> size_weight = Some (Num 1)"
    and "count_weight = None \<or> count_weight = Some (Num 0)"
    and "\<forall>x. pow x (Num 1) = x" and "\<forall>x. pow x (Num 0) = Num 1"
    and "\<forall>n \<in> set allRepoNodes. \<not> inheritedName (repo_name n)"
    and "\<forall>e \<in> set (allEdges (nonExcluded (orDefault [] exclude_repo) excludeRepositories allRepoNodes)).
           \<not> inheritedName (edge_name e)"
  shows "(map_of (own_props out) l \<noteq> None \<longleftrightarrow>
            edgesNamed l (allEdges
              (nonExcluded (orDefault [] exclude_repo) excludeRepositories allRepoNodes)) \<noteq> [])
       \<and> (\<forall>s. map_of (own_props out) l = Some s \<longrightarrow>
            stat_size s =
              Num (real_of_int (sum_list (map edge_size (edgesNamed l (allEdges
                (nonExcluded (orDefault [] exclude_repo) excludeRepositories allRepoNodes)))))))"
proof -
  have agg: "aggregate pow (orDefault [] exclude_repo) excludeRepositories
           (orDefault (Num 1) size_weight) (orDefault (Num 0) count_weight) allRepoNodes = Inr out"
    by (rule fetch_aggregate [OF assms(1,2)])
  have sw: "orDefault (Num 1) size_weight = Num 1" and cw: "orDefault (Num 0) count_weight = Num 0"
    using assms(3,4) by (auto simp: orDefault_def)
  note look = aggregate_plain [OF agg assms(7,8), of l]
  show ?thesis
    by (auto simp: look sw cw assms(5,6) js_mul_one split: if_splits)
qed




text \<open>
  Claim C4, as stated, fails. A non-excluded repository node without its
  \<^verbatim>\<open>languages\<close> field makes the call fail with \<open>TypeError\<close>: the node is not read as
  a node with no edges, and the edges of the other repository are lost with it.
\<close>

theorem missing_edges_counterexample:
  "fetchTopLanguages scripted cut power01 [] (Some ''octocat'') None None None
     (initial [success (page False None [sample_a, bare_repo ''r''])]) =
   Some (Inl TypeError, after_one_call)"
  by (simp add: fetch_single_page aggregate_bare orDefault_def)

text \<open>
  Claim C4, amended. Let no collected repository be named like a property that every
  object inherits. Once the loop has collected its nodes: if a non-excluded node lacks
  its \<^verbatim>\<open>languages\<close> field or the \<^verbatim>\<open>edges\<close> list in it, the call fails with
  \<open>TypeError\<close>; if every non-excluded node has its edge list, the call returns an
  object and raises nothing; and if every non-excluded node has an empty edge list,
  which includes no repositories at all and all repositories excluded, the call returns
  the empty object. Excluded nodes are never inspected.
\<close>

theorem missing_edges_raise_TypeError:
  assumes "username \<noteq> []"
    and "collectPages retryer wrap username None [] st = Some (Inr allRepoNodes, st1)"
    and "\<forall>n \<in> set allRepoNodes. \<not> inheritedName (repo_name n)"
  shows "((\<exists>n \<in> set (nonExcluded (orDefault [] exclude_repo) excludeRepositories allRepoNodes).
             languages n = None \<or> (\<exists>conn. languages n = Some conn \<and> edges conn = None))
          \<longrightarrow> fetchTopLanguages retryer wrap pow excludeRepositories
                (Some username) exclude_repo size_weight count_weight st = Some (Inl TypeError, st1))
       \<and> ((\<forall>n \<in> set (nonExcluded (orDefault [] exclude_repo) excludeRepositories allRepoNodes).
             \<exists>conn es. languages n = Some conn \<and> edges conn = Some es)
          \<longrightarrow> (\<exists>out. fetchTopLanguages retryer wrap pow excludeRepositories
                (Some username) exclude_repo size_weight count_weight st = Some (Inr out, st1)))
       \<and> ((\<forall>n \<in> set (nonExcluded (orDefault [] exclude_repo) excludeRepositories allRepoNodes).
             \<exists>conn. languages n = Some conn \<and> edges conn = Some [])
          \<longrightarrow> fetchTopLanguages retryer wrap pow excludeRepositories
                (Some username) exclude_repo size_weight count_weight st =
              Some (Inr \<lparr>own_props = [], prototype = None\<rparr>, st1))"
proof -
  let ?V = "visibleRepos (orDefault [] exclude_repo) excludeRepositories allRepoNodes"
  let ?N = "nonExcluded (orDefault [] exclude_repo) excludeRepositories allRepoNodes"
  let ?sw = "orDefault (Num 1) size_weight" and ?cw = "orDefault (Num 0) count_weight"
  have fetch: "fetchTopLanguages retryer wrap pow excludeRepositories
                (Some username) exclude_repo size_weight count_weight st =
      Some (aggregate pow (orDefault [] exclude_repo) excludeRepositories ?sw ?cw allRepoNodes, st1)"
    by (rule fetch_collected [OF assms(1,2)])
  have kept: "set ?V = set ?N"
    using assms(3) by (rule set_visibleRepos)
  have missing: "languages_edges n = Inl TypeError \<longleftrightarrow>
      languages n = None \<or> (\<exists>conn. languages n = Some conn \<and> edges conn = None)" for n
    by (auto simp: languages_edges_def split: option.splits)
  have present: "languages_edges n = Inr es \<longleftrightarrow>
      (\<exists>conn. languages n = Some conn \<and> edges conn = Some es)" for n es
    by (auto simp: languages_edges_def split: option.splits)
  have raise: "aggregate pow (orDefault [] exclude_repo) excludeRepositories ?sw ?cw allRepoNodes = Inl TypeError"
    if "\<exists>n \<in> set ?N. languages n = None \<or> (\<exists>conn. languages n = Some conn \<and> edges conn = None)"
    using that by (intro aggregate_raises) (simp add: missing kept)
  have ok: "aggregate pow (orDefault [] exclude_repo) excludeRepositories ?sw ?cw allRepoNodes =
        Inr (topLangs (weigh pow ?sw ?cw (languageStats (foldOrder ?V))))"
    if "\<forall>n \<in> set ?N. \<exists>conn es. languages n = Some conn \<and> edges conn = Some es"
    using that by (intro aggregate_ok) (auto simp: present kept)
  have none: "foldOrder ?V = []"
    if "\<forall>n \<in> set ?N. \<exists>conn. languages n = Some conn \<and> edges conn = Some []"
  proof -
    from that have "\<forall>n \<in> set ?V. edge_list n = []"
      by (auto simp: edge_list_def languages_edges_def kept)
    then show ?thesis by (simp add: foldOrder_def)
  qed
  have empty: "aggregate pow (orDefault [] exclude_repo) excludeRepositories ?sw ?cw allRepoNodes =
        Inr \<lparr>own_props = [], prototype = None\<rparr>"
    if h: "\<forall>n \<in> set ?N. \<exists>conn. languages n = Some conn \<and> edges conn = Some []"
  proof -
    from h have "\<forall>n \<in> set ?N. \<exists>conn es. languages n = Some conn \<and> edges conn = Some es" by blast
    from ok [OF this] none [OF h] show ?thesis
      by (simp add: languageStats_def weigh_def topLangs_def js_sort_def objectKeys_def)
  qed
  show ?thesis
    using raise ok empty by (simp add: fetch)
qed

theorem missing_edges_raise_TypeError_witness:
  "fetchTopLanguages scripted cut power01 [] (Some ''octocat'') None None None
     (initial [success (page False None [sample_a, bare_repo ''r''])]) =
   Some (Inl TypeError, after_one_call)
   \<and> (\<exists>out. fetchTopLanguages scripted cut power01 [] (Some ''octocat'') None None None
        (initial two_pages) = Some (Inr out, after_two_calls))
   \<and> fetchTopLanguages scripted cut power01 [''r''] (Some ''octocat'') (Some [''a'']) None None
        (initial [success (page False None [sample_a, bare_repo ''r'', repo ''e'' []])]) =
      Some (Inr \<lparr>own_props = [], prototype = None\<rparr>, after_one_call)"
proof -
  have user: "''octocat'' \<noteq> []" by simp
  have plain_bare: "\<forall>n \<in> set [sample_a, bare_repo ''r'']. \<not> inheritedName (repo_name n)"
    by (simp add: notion_defs fixture_defs)
  have plain_two: "\<forall>n \<in> set [sample_a, sample_b]. \<not> inheritedName (repo_name n)"
    by (simp add: notion_defs fixture_defs)
  have plain_empty: "\<forall>n \<in> set [sample_a, bare_repo ''r'', repo ''e'' []]. \<not> inheritedName (repo_name n)"
    by (simp add: notion_defs fixture_defs)
  have missing: "\<exists>n \<in> set (nonExcluded (orDefault [] None) [] [sample_a, bare_repo ''r'']).
      languages n = None \<or> (\<exists>conn. languages n = Some conn \<and> edges conn = None)"
    by (simp add: orDefault_def nonExcluded_def fixture_defs)
  have present: "\<forall>n \<in> set (nonExcluded (orDefault [] None) [] [sample_a, sample_b]).
      \<exists>conn es. languages n = Some conn \<and> edges conn = Some es"
    by (simp add: orDefault_def nonExcluded_def fixture_defs)
  have empty: "\<forall>n \<in> set (nonExcluded (orDefault [] (Some [''a''])) [''r'']
        [sample_a, bare_repo ''r'', repo ''e'' []]).
      \<exists>conn. languages n = Some conn \<and> edges conn = Some []"
    by (simp add: orDefault_def nonExcluded_def fixture_defs)
  from missing_edges_raise_TypeError [OF user
      collect_single_page [of cut "[sample_a, bare_repo ''r'']"] plain_bare,
      where exclude_repo = None and excludeRepositories = "[]" and pow = power01
        and size_weight = None and count_weight = None]
    missing
  have first: "fetchTopLanguages scripted cut power01 [] (Some ''octocat'') None None None
     (initial [success (page False None [sample_a, bare_repo ''r''])]) =
     Some (Inl TypeError, after_one_call)"
    by blast
  from missing_edges_raise_TypeError [OF user collect_two_pages [of cut] plain_two,
      where exclude_repo = None and excludeRepositories = "[]" and pow = power01
        and size_weight = None and count_weight = None]
    present
  have second: "\<exists>out. fetchTopLanguages scripted cut power01 [] (Some ''octocat'') None None None
        (initial two_pages) = Some (Inr out, after_two_calls)"
    by blast
  from missing_edges_raise_TypeError [OF user
      collect_single_page [of cut "[sample_a, bare_repo ''r'', repo ''e'' []]"] plain_empty,
      where exclude_repo = "Some [''a'']" and excludeRepositories = "[''r'']" and pow = power01
        and size_weight = None and count_weight = None]
    empty
  have third: "fetchTopLanguages scripted cut power01 [''r''] (Some ''octocat'') (Some [''a'']) None None
        (initial [success (page False None [sample_a, bare_repo ''r'', repo ''e'' []])]) =
      Some (Inr \<lparr>own_props = [], prototype = None\<rparr>, after_one_call)"
    by blast
  from first second third show ?thesis
    by blast
qed

text \<open>
  Claim C5, as stated, fails. Of two edges for the language \<open>X\<close>, the fold meets the
  one coloured \<open>#999\<close> first and the one coloured \<open>#111\<close> after it; the output
  records \<open>#111\<close>.
\<close>

theorem colour_not_of_first_edge:
  "fetchTopLanguages scripted cut power01 [] (Some ''octocat'') None None None
     (initial [success (page False None recoloured)]) =
   Some (Inr (object [(''X'', stat ''X'' ''#111'' 120 2)]), after_one_call)
   \<and> edgesNamed ''X'' (foldOrder (visibleRepos [] [] recoloured)) =
       [lang_edge ''X'' ''#999'' 70, lang_edge ''X'' ''#111'' 50]
   \<and> node_color (edge_node (hd [lang_edge ''X'' ''#999'' 70, lang_edge ''X'' ''#111'' 50])) = ''#999''"
proof (intro conjI)
  show "fetchTopLanguages scripted cut power01 [] (Some ''octocat'') None None None
     (initial [success (page False None recoloured)]) =
   Some (Inr (object [(''X'', stat ''X'' ''#111'' 120 2)]), after_one_call)"
    by (simp add: fetch_single_page aggregate_recoloured orDefault_def)
  have "visibleRepos [] [] recoloured = recoloured"
    by (simp add: aggregate_defs fixture_defs)
  then show "edgesNamed ''X'' (foldOrder (visibleRepos [] [] recoloured)) =
       [lang_edge ''X'' ''#999'' 70, lang_edge ''X'' ''#111'' 50]"
    by (simp add: notion_defs fixture_defs)
  show "node_color (edge_node (hd [lang_edge ''X'' ''#999'' 70, lang_edge ''X'' ''#111'' 50])) = ''#999''"
    by (simp add: lang_edge_def)
qed

text \<open>
  Claim C5, amended. Let no collected repository be named like a property that every
  object inherits. The colour recorded for a language in the output is the colour
  carried by the last edge for that language that the fold meets: every edge for the
  language overwrites the colour recorded before it. The fold meets the edges of the
  non-excluded repositories from the last repository to the first, in the collection
  order when no collected node carries a size, and in the order of descending size,
  equal sizes in the collection order, when every collected node carries one.
\<close>

theorem colour_of_last_edge:
  assumes "collectPages retryer wrap username None [] st = Some (Inr allRepoNodes, st1)"
    and "fetchTopLanguages retryer wrap pow excludeRepositories
           (Some username) exclude_repo size_weight count_weight st = Some (Inr out, st2)"
    and "\<forall>n \<in> set allRepoNodes. \<not> inheritedName (repo_name n)"
    and "map_of (own_props out) l = Some s"
  shows "((\<forall>node \<in> set allRepoNodes. repo_size node = None) \<longrightarrow>
            edgesNamed l (foldOrder
              (nonExcluded (orDefault [] exclude_repo) excludeRepositories allRepoNodes)) \<noteq> []
            \<and> stat_color s =
                node_color (edge_node (last (edgesNamed l (foldOrder
                  (nonExcluded (orDefault [] exclude_repo) excludeRepositories allRepoNodes))))))
       \<and> ((\<forall>node \<in> set allRepoNodes. repo_size node \<noteq> None) \<longrightarrow>
            edgesNamed l (foldOrder
              (nonExcluded (orDefault [] exclude_repo) excludeRepositories
                 (sort_key (\<lambda>node. - the (repo_size node)) allRepoNodes))) \<noteq> []
            \<and> stat_color s =
                node_color (edge_node (last (edgesNamed l (foldOrder
                  (nonExcluded (orDefault [] exclude_repo) excludeRepositories
                     (sort_key (\<lambda>node. - the (repo_size node)) allRepoNodes)))))))"
proof -
  let ?V = "visibleRepos (orDefault [] exclude_repo) excludeRepositories allRepoNodes"
  have agg: "aggregate pow (orDefault [] exclude_repo) excludeRepositories
           (orDefault (Num 1) size_weight) (orDefault (Num 0) count_weight) allRepoNodes = Inr out"
    by (rule fetch_aggregate [OF assms(1,2)])
  note colour = aggregate_colour(1,3) [OF agg assms(4)]
  have unsized: "?V = nonExcluded (orDefault [] exclude_repo) excludeRepositories allRepoNodes"
    if "\<forall>node \<in> set allRepoNodes. repo_size node = None"
    using that by (simp add: visibleRepos_def js_sort_unsized visible_filter [OF assms(3)])
  have sized: "?V = nonExcluded (orDefault [] exclude_repo) excludeRepositories
      (sort_key (\<lambda>node. - the (repo_size node)) allRepoNodes)"
    if "\<forall>node \<in> set allRepoNodes. repo_size node \<noteq> None"
  proof -
    from assms(3)
    have "\<forall>n \<in> set (sort_key (\<lambda>node. - the (repo_size node)) allRepoNodes).
        \<not> inheritedName (repo_name n)"
      by simp
    from visible_filter [OF this] that show ?thesis
      by (simp add: visibleRepos_def js_sort_sized)
  qed
  from colour unsized sized show ?thesis
    by metis
qed

theorem colour_of_last_edge_witness:
  "fetchTopLanguages scripted cut power01 [] (Some ''octocat'') None None None
     (initial [success (page False None recoloured)]) =
   Some (Inr (object [(''X'', stat ''X'' ''#111'' 120 2)]), after_one_call)
   \<and> stat_color (stat ''X'' ''#111'' 120 2) =
       node_color (edge_node (last (edgesNamed ''X'' (foldOrder (nonExcluded [] [] recoloured)))))
   \<and> fetchTopLanguages scripted cut power01 [] (Some ''octocat'') None None None
     (initial [success (page False None recoloured_sized)]) =
   Some (Inr (object [(''X'', stat ''X'' ''#999'' 120 2)]), after_one_call)
   \<and> stat_color (stat ''X'' ''#999'' 120 2) =
       node_color (edge_node (last (edgesNamed ''X'' (foldOrder
         (nonExcluded [] [] (sort_key (\<lambda>node. - the (repo_size node)) recoloured_sized))))))"
proof -
  have run: "fetchTopLanguages scripted cut power01 [] (Some ''octocat'') None None None
      (initial [success (page False None recoloured)]) =
      Some (Inr (object [(''X'', stat ''X'' ''#111'' 120 2)]), after_one_call)"
    by (simp add: fetch_single_page aggregate_recoloured orDefault_def)
  have run_sized: "fetchTopLanguages scripted cut power01 [] (Some ''octocat'') None None None
      (initial [success (page False None recoloured_sized)]) =
      Some (Inr (object [(''X'', stat ''X'' ''#999'' 120 2)]), after_one_call)"
    by (simp add: fetch_single_page aggregate_recoloured_sized orDefault_def)
  have plain: "\<forall>n \<in> set recoloured. \<not> inheritedName (repo_name n)"
    and unsized: "\<forall>node \<in> set recoloured. repo_size node = None"
    by (simp_all add: notion_defs fixture_defs)
  have plain_sized: "\<forall>n \<in> set recoloured_sized. \<not> inheritedName (repo_name n)"
    and sized: "\<forall>node \<in> set recoloured_sized. repo_size node \<noteq> None"
    by (simp_all add: notion_defs fixture_defs)
  have look: "map_of (own_props (object [(''X'', stat ''X'' ''#111'' 120 2)])) ''X'' =
      Some (stat ''X'' ''#111'' 120 2)"
    and look_sized: "map_of (own_props (object [(''X'', stat ''X'' ''#999'' 120 2)])) ''X'' =
      Some (stat ''X'' ''#999'' 120 2)"
    by (simp_all add: object_def)
  from colour_of_last_edge [OF collect_single_page run plain look] unsized
  have "stat_color (stat ''X'' ''#111'' 120 2) =
      node_color (edge_node (last (edgesNamed ''X'' (foldOrder
        (nonExcluded (orDefault [] None) [] recoloured)))))"
    by blast
  then have first: "stat_color (stat ''X'' ''#111'' 120 2) =
      node_color (edge_node (last (edgesNamed ''X'' (foldOrder (nonExcluded [] [] recoloured)))))"
    by (simp only: orDefault_def option.case)
  from colour_of_last_edge [OF collect_single_page run_sized plain_sized look_sized] sized
  have "stat_color (stat ''X'' ''#999'' 120 2) =
      node_color (edge_node (last (edgesNamed ''X'' (foldOrder
        (nonExcluded (orDefault [] None) []
          (sort_key (\<lambda>node. - the (repo_size node)) recoloured_sized))))))"
    by blast
  then have second: "stat_color (stat ''X'' ''#999'' 120 2) =
      node_color (edge_node (last (edgesNamed ''X'' (foldOrder
        (nonExcluded [] [] (sort_key (\<lambda>node. - the (repo_size node)) recoloured_sized))))))"
    by (simp only: orDefault_def option.case)
  from run first run_sized second show ?thesis by blast
qed



end
